theory Spec2Isabelle
  imports Main
begin

section \<open>Go values used by the pipeline\<close>

type_synonym bytes = string

text \<open>
  Go's \<^verbatim>\<open>error\<close> values. The three sentinels are the package variables of
  \<^verbatim>\<open>request.go\<close>; \<open>ErrTooLong\<close> is \<^verbatim>\<open>bufio.ErrTooLong\<close>; \<open>PathError op path err\<close> is
  \<^verbatim>\<open>*os.PathError\<close>; \<open>Errorf_w e msg\<close> is the value of a \<^verbatim>\<open>fmt.Errorf\<close> call with one
  \<^verbatim>\<open>%w\<close> verb: it wraps \<open>e\<close> and carries the formatted message \<open>msg\<close>; \<open>Opaque msg\<close>
  is any other error (of the kernel, of a collaborator), known by its message.
\<close>

datatype error =
    ErrProcessRequestFile
  | ErrProcessUrlsFile
  | ErrInvalidHeader
  | ErrTooLong
  | PathError string string error
  | Errorf_w error string
  | Opaque string

fun Error_text :: "error \<Rightarrow> string" where
  "Error_text ErrProcessRequestFile = ''could not process request(s) file''"
| "Error_text ErrProcessUrlsFile = ''could not process url(s) file''"
| "Error_text ErrInvalidHeader = ''invalid header''"
| "Error_text ErrTooLong = ''bufio.Scanner: token too long''"
| "Error_text (PathError op path err) = op @ '' '' @ path @ '': '' @ Error_text err"
| "Error_text (Errorf_w e msg) = msg"
| "Error_text (Opaque msg) = msg"

text \<open>\<^verbatim>\<open>errors.Is\<close>: the target is looked for along the chain of wrapped errors.\<close>

fun errors_Is :: "error \<Rightarrow> error \<Rightarrow> bool" where
  "errors_Is (Errorf_w e msg) target = (Errorf_w e msg = target \<or> errors_Is e target)"
| "errors_Is (PathError op path err) target =
     (PathError op path err = target \<or> errors_Is err target)"
| "errors_Is e target = (e = target)"

text \<open>\<^verbatim>\<open>errors.As(err, &pathErr)\<close> with \<^verbatim>\<open>pathErr *os.PathError\<close>: the first
  \<^verbatim>\<open>*os.PathError\<close> of the chain, as (Op, Path, Err).\<close>

fun errors_As_PathError :: "error \<Rightarrow> (string \<times> string \<times> error) option" where
  "errors_As_PathError (PathError op path err) = Some (op, path, err)"
| "errors_As_PathError (Errorf_w e msg) = errors_As_PathError e"
| "errors_As_PathError e = None"

text \<open>The three \<^verbatim>\<open>fmt.Errorf\<close> formats of the file, with their arguments already
  rendered by \<^verbatim>\<open>%s\<close>.\<close>

definition Errorf_paren_colon :: "error \<Rightarrow> string \<Rightarrow> string \<Rightarrow> error" where
  \<comment> \<open>\<^verbatim>\<open>fmt.Errorf("%w(%s): %s", e, a, b)\<close>\<close>
  "Errorf_paren_colon e a b = Errorf_w e (Error_text e @ ''('' @ a @ ''): '' @ b)"

definition Errorf_paren :: "error \<Rightarrow> string \<Rightarrow> string \<Rightarrow> error" where
  \<comment> \<open>\<^verbatim>\<open>fmt.Errorf("%w(%s) %s", e, a, b)\<close>\<close>
  "Errorf_paren e a b = Errorf_w e (Error_text e @ ''('' @ a @ '') '' @ b)"

definition Errorf_colon :: "error \<Rightarrow> string \<Rightarrow> error" where
  \<comment> \<open>\<^verbatim>\<open>fmt.Errorf("%w: %s", e, a)\<close>\<close>
  "Errorf_colon e a = Errorf_w e (Error_text e @ '': '' @ a)"

section \<open>The standard library functions the code calls\<close>

subsection \<open>\<^verbatim>\<open>strings.SplitN(s, ":", 2)\<close>\<close>

text \<open>With the limit 2 the result has one element when the separator does not occur
  in \<open>s\<close>, and otherwise two: the text before the first separator and the rest.\<close>

definition SplitN_colon_2 :: "string \<Rightarrow> string list" where
  "SplitN_colon_2 s =
     (if CHR '':'' \<in> set s
      then [takeWhile (\<lambda>c. c \<noteq> CHR '':'') s, tl (dropWhile (\<lambda>c. c \<noteq> CHR '':'') s)]
      else [s])"

subsection \<open>\<^verbatim>\<open>strings.TrimSpace\<close>\<close>

text \<open>
  The UTF-8 encodings of the code points for which \<^verbatim>\<open>unicode.IsSpace\<close> holds:
  the six ASCII ones, U+0085, U+00A0, U+1680, U+2000 to U+200A, U+2028, U+2029, U+202F,
  U+205F and U+3000. \<^verbatim>\<open>TrimSpace\<close> removes such code points from the left end, then from
  the right end.
\<close>

definition space_runes :: "string list" where
  "space_runes =
     [[CHR 0x09], [CHR 0x0A], [CHR 0x0B], [CHR 0x0C], [CHR 0x0D], [CHR 0x20],
      [CHR 0xC2, CHR 0x85], [CHR 0xC2, CHR 0xA0],
      [CHR 0xE1, CHR 0x9A, CHR 0x80],
      [CHR 0xE2, CHR 0x80, CHR 0x80], [CHR 0xE2, CHR 0x80, CHR 0x81],
      [CHR 0xE2, CHR 0x80, CHR 0x82], [CHR 0xE2, CHR 0x80, CHR 0x83],
      [CHR 0xE2, CHR 0x80, CHR 0x84], [CHR 0xE2, CHR 0x80, CHR 0x85],
      [CHR 0xE2, CHR 0x80, CHR 0x86], [CHR 0xE2, CHR 0x80, CHR 0x87],
      [CHR 0xE2, CHR 0x80, CHR 0x88], [CHR 0xE2, CHR 0x80, CHR 0x89],
      [CHR 0xE2, CHR 0x80, CHR 0x8A],
      [CHR 0xE2, CHR 0x80, CHR 0xA8], [CHR 0xE2, CHR 0x80, CHR 0xA9],
      [CHR 0xE2, CHR 0x80, CHR 0xAF], [CHR 0xE2, CHR 0x81, CHR 0x9F],
      [CHR 0xE3, CHR 0x80, CHR 0x80]]"

definition HasPrefix :: "string \<Rightarrow> string \<Rightarrow> bool" where
  "HasPrefix s p = (take (length p) s = p)"

definition HasSuffix :: "string \<Rightarrow> string \<Rightarrow> bool" where
  "HasSuffix s p = (drop (length s - length p) s = p)"

text \<open>The number of bytes of the space code point at the left (right) end of \<open>s\<close>;
  0 when there is none.\<close>

definition space_left :: "string \<Rightarrow> nat" where
  "space_left s = (case find (HasPrefix s) space_runes of None \<Rightarrow> 0 | Some p \<Rightarrow> length p)"

definition space_right :: "string \<Rightarrow> nat" where
  "space_right s = (case find (HasSuffix s) space_runes of None \<Rightarrow> 0 | Some p \<Rightarrow> length p)"

function TrimLeft :: "string \<Rightarrow> string" where
  "TrimLeft s =
     (if s = [] \<or> space_left s = 0 then s else TrimLeft (drop (space_left s) s))"
  by pat_completeness auto
termination
  by (relation "measure length") auto

function TrimRight :: "string \<Rightarrow> string" where
  "TrimRight s =
     (if s = [] \<or> space_right s = 0 then s
      else TrimRight (take (length s - space_right s) s))"
  by pat_completeness auto
termination
  by (relation "measure length") auto

declare TrimLeft.simps [simp del] TrimRight.simps [simp del]

definition TrimSpace :: "string \<Rightarrow> string" where
  "TrimSpace s = TrimRight (TrimLeft s)"

subsection \<open>\<^verbatim>\<open>bufio.Scanner\<close> with its default split function and buffer\<close>

text \<open>
  \<^verbatim>\<open>bufio.NewScanner\<close> splits with \<^verbatim>\<open>ScanLines\<close> and holds a token in a buffer of at
  most \<^verbatim>\<open>bufio.MaxScanTokenSize\<close> = 64 * 1024 bytes. A line ends at a line feed; one
  carriage return before it is dropped; a last line without line feed is a token when it
  is not empty. When the buffer is full and holds no line feed, \<^verbatim>\<open>Scan\<close> returns false
  for good and \<^verbatim>\<open>Err\<close> is \<^verbatim>\<open>ErrTooLong\<close>.
\<close>

definition MaxScanTokenSize :: nat where
  "MaxScanTokenSize = 64 * 1024"

definition dropCR :: "bytes \<Rightarrow> bytes" where
  "dropCR data = (if data \<noteq> [] \<and> last data = CHR 0x0D then butlast data else data)"

text \<open>The tokens \<^verbatim>\<open>Scan\<close> delivers from the bytes a reader supplies before it ends, and
  whether scanning stopped at a token too long.\<close>

lemma length_tl_dropWhile: "data \<noteq> [] \<Longrightarrow> length (tl (dropWhile P data)) < length data"
proof -
  assume "data \<noteq> []"
  have "length (tl (dropWhile P data)) \<le> length (dropWhile P data) - 1" by simp
  moreover have "length (dropWhile P data) \<le> length data" by (rule length_dropWhile_le)
  moreover have "0 < length data" using \<open>data \<noteq> []\<close> by simp
  ultimately show ?thesis by linarith
qed

function scan_tokens :: "bytes \<Rightarrow> string list \<times> bool" where
  "scan_tokens data =
     (if data = [] then ([], False)
      else if CHR 0x0A \<in> set (take MaxScanTokenSize data) then
        (case scan_tokens (tl (dropWhile (\<lambda>c. c \<noteq> CHR 0x0A) data)) of
           (toks, too_long) \<Rightarrow> (dropCR (takeWhile (\<lambda>c. c \<noteq> CHR 0x0A) data) # toks, too_long))
      else if MaxScanTokenSize \<le> length data then ([], True)
      else ([dropCR data], False))"
  by pat_completeness auto
termination
  by (relation "measure length") (simp_all add: length_tl_dropWhile del: length_tl)

declare scan_tokens.simps [simp del]

text \<open>An open file as a reader: the bytes its \<^verbatim>\<open>Read\<close> calls deliver, and the error
  other than \<^verbatim>\<open>io.EOF\<close> on which they end, if any.\<close>

record File =
  delivered :: bytes
  read_err :: "error option"

text \<open>All tokens of a scanner run to its end over a reader, and \<^verbatim>\<open>scanner.Err()\<close>
  afterwards.\<close>

definition Scanner_run :: "File \<Rightarrow> string list \<times> error option" where
  "Scanner_run f =
     (case scan_tokens (delivered f) of
        (toks, too_long) \<Rightarrow> (toks, if too_long then Some ErrTooLong else read_err f))"

subsection \<open>\<^verbatim>\<open>strings.Join\<close>\<close>

fun Join :: "string list \<Rightarrow> string \<Rightarrow> string" where
  "Join [] sep = []"
| "Join [x] sep = x"
| "Join (x # y # ys) sep = x @ sep @ Join (y # ys) sep"

section \<open>Data of the template pipeline\<close>

text \<open>
  Modelled from the spec: the request representation of package \<^verbatim>\<open>request\<close> is not
  among the sources. The spec gives it a method, a target URL, headers in emission order
  and body bytes.
\<close>

record Request =
  req_method :: string
  req_target :: string
  req_headers :: "(string \<times> string) list"
  req_body :: bytes

text \<open>The values of \<^verbatim>\<open>request.WithMethod\<close>, \<^verbatim>\<open>request.WithData\<close> and
  \<^verbatim>\<open>request.WithHeader\<close>.\<close>

datatype Option = WithMethod string | WithData bytes | WithHeader string string

text \<open>
  Modelled from the spec: \<^verbatim>\<open>scan.Template\<close> is not among the sources. The spec gives
  it an integer index, an owned request and an optional reference to raw response data.
\<close>

record Template =
  Idx :: int
  Req :: Request
  Resp :: "bytes option"

text \<open>\<^verbatim>\<open>scan.ParamsCfg\<close>, with the four fields \<^verbatim>\<open>PrepareTemplates\<close> assigns.\<close>

record ParamsCfg =
  Params :: "string list"
  Size :: int
  Method :: string
  Encoding :: string

text \<open>\<^verbatim>\<open>Config\<close>, with the fields this file reads. \<^verbatim>\<open>MultiValue\<close> is a slice of
  strings.\<close>

record Config =
  ParamsFile :: string
  ParamsSplit :: int
  ParamsMethod :: string
  ParamsEncoding :: string
  RequestsFile :: string
  RawRequests :: "string list"
  UrlsFile :: string
  URLS :: "string list"
  Method :: string
  Data :: "string list"
  Headers :: "string list"
  OutPath :: string

text \<open>One record of the logger: its level and its formatted message.\<close>

datatype log_entry = LogInfo string | LogWarn string | LogError string

text \<open>
  What the code calls and this file does not define. \<open>os_ReadFile\<close> and \<open>os_Open\<close> are
  the file system the process sees; \<open>url_Validate\<close> takes the string its pointer
  argument points to and gives the string left there with the error returned;
  \<open>StoreTemplate_err\<close> is the error \<^verbatim>\<open>fs.StoreTemplate\<close> returns, if any, for the
  templates stored so far and the one to store; \<open>request_WithParams\<close> rebuilds a request
  for one batch of parameters; \<open>MultiValue_String\<close> is the \<^verbatim>\<open>String\<close> method of
  \<^verbatim>\<open>MultiValue\<close>, and \<open>format_MultiValue\<close> is what the verb \<^verbatim>\<open>%s\<close> prints for a
  \<^verbatim>\<open>MultiValue\<close> passed by value.
\<close>

record Env =
  os_ReadFile :: "string \<Rightarrow> error + bytes"
  os_Open :: "string \<Rightarrow> error + File"
  url_Validate :: "string \<Rightarrow> string \<times> error option"
  request_WithOptions :: "string \<Rightarrow> Option list \<Rightarrow> Request"
  request_ParseRequest :: "bytes \<Rightarrow> error + Request"
  request_WithParams :: "ParamsCfg \<Rightarrow> string list \<Rightarrow> Request \<Rightarrow> Request"
  scan_TemplatesFromZipBytes :: "ParamsCfg \<Rightarrow> bytes \<Rightarrow> error + Template list"
  StoreTemplate_err :: "Template list \<Rightarrow> Template \<Rightarrow> error option"
  strings_ToUpper :: "string \<Rightarrow> string"
  strings_ToLower :: "string \<Rightarrow> string"
  MultiValue_String :: "string list \<Rightarrow> string"
  format_MultiValue :: "string list \<Rightarrow> string"

text \<open>The template store: the templates persisted so far, in the order of the calls
  that stored them.\<close>

type_synonym FileSystem = "Template list"

definition StoreTemplate :: "Env \<Rightarrow> FileSystem \<Rightarrow> Template \<Rightarrow> error + FileSystem" where
  "StoreTemplate env fs tpl =
     (case StoreTemplate_err env fs tpl of
        Some err \<Rightarrow> Inl err
      | None \<Rightarrow> Inr (fs @ [tpl]))"

text \<open>What a function of the pipeline leaves: the store, the records it logged, and the
  error it returns (\<open>None\<close> is Go's \<^verbatim>\<open>nil\<close>).\<close>

type_synonym outcome = "FileSystem \<times> log_entry list \<times> error option"

definition logged :: "log_entry list \<Rightarrow> outcome \<Rightarrow> outcome" where
  "logged l r = (case r of (fs, l', e) \<Rightarrow> (fs, l @ l', e))"

section \<open>Parameter alteration and the template factory\<close>

text \<open>
  Modelled from the spec: \<^verbatim>\<open>scan.NewTemplate\<close>, \<^verbatim>\<open>ParamsCfg.Alter\<close> and
  \<^verbatim>\<open>scan.TemplateFromRawBytes\<close> are not among the sources. By the spec, \<open>Alter\<close>
  returns \<open>[template]\<close> when no parameter names are configured; otherwise it partitions
  the parameters into consecutive batches of the configured size (the last may be
  smaller; 0 or absent means no splitting) and produces, in batch order, one copy of the
  template per batch with its request rebuilt for that batch, the indices going up by
  one from the index of the template. Raw mode parses one request into one base template
  at the index the caller supplies, then alters it.
\<close>

definition NewTemplate :: "int \<Rightarrow> Request \<Rightarrow> bytes option \<Rightarrow> Template" where
  "NewTemplate idx req resp = \<lparr>Idx = idx, Req = req, Resp = resp\<rparr>"

function batches :: "nat \<Rightarrow> 'a list \<Rightarrow> 'a list list" where
  "batches n xs =
     (if xs = [] then []
      else if n = 0 then [xs]
      else take n xs # batches n (drop n xs))"
  by pat_completeness auto
termination
  by (relation "measure (\<lambda>(n, xs). length xs)") auto

declare batches.simps [simp del]

fun altered :: "Env \<Rightarrow> ParamsCfg \<Rightarrow> Template \<Rightarrow> int \<Rightarrow> string list list \<Rightarrow> Template list" where
  "altered env pCfg tpl idx [] = []"
| "altered env pCfg tpl idx (b # bs) =
     \<lparr>Idx = idx, Req = request_WithParams env pCfg b (Req tpl), Resp = Resp tpl\<rparr>
       # altered env pCfg tpl (idx + 1) bs"

definition Alter :: "Env \<Rightarrow> ParamsCfg \<Rightarrow> Template \<Rightarrow> Template list" where
  "Alter env pCfg tpl =
     (if Params pCfg = [] then [tpl]
      else altered env pCfg tpl (Idx tpl) (batches (nat (Size pCfg)) (Params pCfg)))"

definition TemplateFromRawBytes ::
  "Env \<Rightarrow> int \<Rightarrow> ParamsCfg \<Rightarrow> bytes \<Rightarrow> error + Template list" where
  "TemplateFromRawBytes env tplIdx pCfg bs =
     (case request_ParseRequest env bs of
        Inl err \<Rightarrow> Inl err
      | Inr req \<Rightarrow> Inr (Alter env pCfg (NewTemplate tplIdx req None)))"

section \<open>The template resolution pipeline (\<^verbatim>\<open>request.go\<close>)\<close>

text \<open>The index counters are Go \<^verbatim>\<open>int\<close>s that count stored templates from 0; they are
  modelled by \<open>int\<close>, the 64-bit bound being out of reach of any run.\<close>

subsection \<open>\<^verbatim>\<open>readParamsFile\<close>\<close>

text \<open>The scanner reads from \<^verbatim>\<open>bytes.NewReader(contents)\<close>, and \<^verbatim>\<open>scanner.Err()\<close> is
  not looked at: the tokens delivered are the result.\<close>

definition readParamsFile :: "Env \<Rightarrow> string \<Rightarrow> log_entry list \<times> (error + string list)" where
  "readParamsFile env pathToFile =
     ([LogInfo (''Reading params file from: '' @ pathToFile)],
      case os_ReadFile env pathToFile of
        Inl err \<Rightarrow> Inl err
      | Inr contents \<Rightarrow> Inr (map TrimSpace (fst (scan_tokens contents))))"

subsection \<open>\<^verbatim>\<open>createFromRequestsFile\<close>\<close>

fun storeBundle :: "Env \<Rightarrow> string \<Rightarrow> Template list \<Rightarrow> FileSystem \<Rightarrow> FileSystem \<times> error option" where
  "storeBundle env path [] fs = (fs, None)"
| "storeBundle env path (template # templates) fs =
     (case StoreTemplate env fs template of
        Inl err \<Rightarrow> (fs, Some (Errorf_paren ErrProcessRequestFile path (Error_text err)))
      | Inr fs' \<Rightarrow> storeBundle env path templates fs')"

definition createFromRequestsFile :: "Env \<Rightarrow> FileSystem \<Rightarrow> string \<Rightarrow> ParamsCfg \<Rightarrow> outcome" where
  "createFromRequestsFile env fs path pCfg =
     (case os_ReadFile env path of
        Inl err \<Rightarrow> (fs, [], Some (Errorf_paren_colon ErrProcessRequestFile path (Error_text err)))
      | Inr file \<Rightarrow>
          (case scan_TemplatesFromZipBytes env pCfg file of
             Inl err \<Rightarrow>
               (fs, [], Some (Errorf_paren_colon ErrProcessRequestFile path (Error_text err)))
           | Inr templates \<Rightarrow>
               (case storeBundle env path templates fs of (fs', e) \<Rightarrow> (fs', [], e))))"

subsection \<open>\<^verbatim>\<open>createFromRawRequestFiles\<close>\<close>

text \<open>The inner loop: the counter goes up before each call of the store.\<close>

fun storeRaw ::
  "Env \<Rightarrow> string \<Rightarrow> Template list \<Rightarrow> int \<Rightarrow> FileSystem \<Rightarrow> int \<times> FileSystem \<times> error option" where
  "storeRaw env path [] tplIdx fs = (tplIdx, fs, None)"
| "storeRaw env path (tpl # tpls) tplIdx fs =
     (case StoreTemplate env fs tpl of
        Inl err \<Rightarrow>
          (tplIdx + 1, fs, Some (Errorf_paren_colon ErrProcessRequestFile path (Error_text err)))
      | Inr fs' \<Rightarrow> storeRaw env path tpls (tplIdx + 1) fs')"

fun rawFiles ::
  "Env \<Rightarrow> ParamsCfg \<Rightarrow> string list \<Rightarrow> int \<Rightarrow> FileSystem \<Rightarrow> FileSystem \<times> error option" where
  "rawFiles env pCfg [] tplIdx fs = (fs, None)"
| "rawFiles env pCfg (path # paths) tplIdx fs =
     (case os_ReadFile env path of
        Inl err \<Rightarrow> (fs, Some (Errorf_paren_colon ErrProcessRequestFile path (Error_text err)))
      | Inr bs \<Rightarrow>
          (case TemplateFromRawBytes env tplIdx pCfg bs of
             Inl err \<Rightarrow>
               (fs, Some (Errorf_paren_colon ErrProcessRequestFile path (Error_text err)))
           | Inr templates \<Rightarrow>
               (case storeRaw env path templates tplIdx fs of
                  (tplIdx', fs', Some e) \<Rightarrow> (fs', Some e)
                | (tplIdx', fs', None) \<Rightarrow> rawFiles env pCfg paths tplIdx' fs')))"

definition createFromRawRequestFiles ::
  "Env \<Rightarrow> FileSystem \<Rightarrow> string list \<Rightarrow> ParamsCfg \<Rightarrow> outcome" where
  "createFromRawRequestFiles env fs paths pCfg =
     (case rawFiles env pCfg paths 0 fs of (fs', e) \<Rightarrow> (fs', [], e))"

subsection \<open>\<^verbatim>\<open>createFromConfig\<close>\<close>

definition methodOptions :: "Config \<Rightarrow> Option list \<times> log_entry list" where
  "methodOptions cfg =
     (if length (Config.Method cfg) > 0
      then ([WithMethod (Config.Method cfg)],
            [LogInfo (''HTTP method inherited from config: '' @ Config.Method cfg)])
      else ([], []))"

definition dataOptions :: "Env \<Rightarrow> Config \<Rightarrow> Option list \<times> log_entry list" where
  "dataOptions env cfg =
     (if length (Data cfg) > 0
      then ([WithData (Join (Data cfg) ''&'')],
            [LogInfo (''Payload data inherited from config: '' @ MultiValue_String env (Data cfg))])
      else ([], []))"

text \<open>The loop over \<^verbatim>\<open>cfg.Headers\<close>: the options appended so far, or the error of the
  first header that \<^verbatim>\<open>SplitN\<close> does not cut in two.\<close>

fun headerOptions :: "string list \<Rightarrow> Option list \<Rightarrow> error + Option list" where
  "headerOptions [] options = Inr options"
| "headerOptions (header # hs) options =
     (if length (SplitN_colon_2 header) \<noteq> 2 then Inl (Errorf_colon ErrInvalidHeader header)
      else headerOptions hs
             (options @ [WithHeader (TrimSpace (SplitN_colon_2 header ! 0))
                                    (TrimSpace (SplitN_colon_2 header ! 1))]))"

text \<open>The inner loop over the templates of one URL.\<close>

fun storeConfig ::
  "Env \<Rightarrow> string \<Rightarrow> Template list \<Rightarrow> int \<Rightarrow> FileSystem \<Rightarrow> int \<times> outcome" where
  "storeConfig env cfgURL [] tplIdx fs = (tplIdx, fs, [], None)"
| "storeConfig env cfgURL (tpl # tpls) tplIdx fs =
     (case StoreTemplate env fs tpl of
        Inl err \<Rightarrow>
          (tplIdx + 1, fs,
           [LogError (''Error while building scan template: '' @ Error_text err)],
           Some (Errorf_paren_colon ErrProcessRequestFile cfgURL (Error_text err)))
      | Inr fs' \<Rightarrow> storeConfig env cfgURL tpls (tplIdx + 1) fs')"

text \<open>The loop over \<^verbatim>\<open>cfg.URLS\<close>. \<^verbatim>\<open>url.Validate\<close> works on the loop variable through
  a pointer, so what follows sees the string it left.\<close>

fun configURLs ::
  "Env \<Rightarrow> ParamsCfg \<Rightarrow> Option list \<Rightarrow> string list \<Rightarrow> int \<Rightarrow> FileSystem \<Rightarrow> outcome" where
  "configURLs env pCfg options [] tplIdx fs = (fs, [], None)"
| "configURLs env pCfg options (u # us) tplIdx fs =
     (case url_Validate env u of
        (cfgURL, Some err) \<Rightarrow>
          (fs,
           [LogError (''Error while validating url ('' @ cfgURL @ ''): '' @ Error_text err)],
           Some err)
      | (cfgURL, None) \<Rightarrow>
          (case storeConfig env cfgURL
                  (Alter env pCfg
                     (NewTemplate tplIdx (request_WithOptions env cfgURL options) None))
                  tplIdx fs of
             (tplIdx', fs', l, Some e) \<Rightarrow> (fs', l, Some e)
           | (tplIdx', fs', l, None) \<Rightarrow> logged l (configURLs env pCfg options us tplIdx' fs')))"

definition createFromConfig :: "Env \<Rightarrow> FileSystem \<Rightarrow> Config \<Rightarrow> ParamsCfg \<Rightarrow> outcome" where
  "createFromConfig env fs cfg pCfg =
     (let (mo, ml) = methodOptions cfg;
          (dop, dl) = dataOptions env cfg;
          hl = (if length (Headers cfg) > 0
                then [LogInfo (''HTTP headers inherited from config: ''
                               @ MultiValue_String env (Headers cfg))]
                else [])
      in case headerOptions (Headers cfg) (mo @ dop) of
           Inl err \<Rightarrow> (fs, ml @ dl @ hl, Some err)
         | Inr options \<Rightarrow>
             logged (ml @ dl @ hl) (configURLs env pCfg options (URLS cfg) 0 fs))"

subsection \<open>\<^verbatim>\<open>updateConfigWithURLS\<close>\<close>

text \<open>The loop over the scanner's lines: the URL list with the valid lines appended,
  and one warning for each line skipped.\<close>

fun urlsLines ::
  "Env \<Rightarrow> string \<Rightarrow> string list \<Rightarrow> string list \<Rightarrow> string list \<times> log_entry list" where
  "urlsLines env urlsFile [] urls = (urls, [])"
| "urlsLines env urlsFile (l # ls) urls =
     (case url_Validate env l of
        (line, Some err) \<Rightarrow>
          (case urlsLines env urlsFile ls urls of
             (urls', lg) \<Rightarrow>
               (urls',
                LogWarn (''Skipping url(s) file ('' @ urlsFile @ '') line ('' @ line
                         @ '') - not a valid url: '' @ Error_text err) # lg))
      | (line, None) \<Rightarrow> urlsLines env urlsFile ls (urls @ [line]))"

definition updateConfigWithURLS :: "Env \<Rightarrow> Config \<Rightarrow> Config \<times> log_entry list \<times> error option" where
  "updateConfigWithURLS env cfg =
     (case os_Open env (UrlsFile cfg) of
        Inl err \<Rightarrow>
          (case errors_As_PathError err of
             Some (op, path, pathErr_Err) \<Rightarrow>
               (cfg, [],
                Some (Errorf_paren_colon ErrProcessUrlsFile (UrlsFile cfg) (Error_text pathErr_Err)))
           | None \<Rightarrow>
               (cfg, [],
                Some (Errorf_paren_colon ErrProcessUrlsFile (OutPath cfg) (Error_text err))))
      | Inr file \<Rightarrow>
          (case Scanner_run file of
             (lines, scanner_Err) \<Rightarrow>
               (case urlsLines env (UrlsFile cfg) lines (URLS cfg) of
                  (urls, lg) \<Rightarrow> (cfg\<lparr>URLS := urls\<rparr>, lg, scanner_Err))))"

subsection \<open>\<^verbatim>\<open>createTemplates\<close> and \<^verbatim>\<open>PrepareTemplates\<close>\<close>

definition createTemplates :: "Env \<Rightarrow> FileSystem \<Rightarrow> Config \<Rightarrow> ParamsCfg \<Rightarrow> outcome" where
  "createTemplates env fs cfg pCfg =
     logged [LogInfo ''Preparing templates for scan'']
       (if length (RequestsFile cfg) > 0 then
          logged [LogInfo (''Scan templates from requests file: '' @ RequestsFile cfg)]
            (createFromRequestsFile env fs (RequestsFile cfg) pCfg)
        else if length (RawRequests cfg) > 0 then
          logged [LogInfo (''Scan templates from raw requests: ''
                           @ format_MultiValue env (RawRequests cfg))]
            (createFromRawRequestFiles env fs (RawRequests cfg) pCfg)
        else if length (UrlsFile cfg) > 0 then
          (case updateConfigWithURLS env cfg of
             (cfg', lg, Some err) \<Rightarrow>
               (fs,
                [LogInfo ''Updating config with urls file''] @ lg
                @ [LogError (''Error while updating config with urls file: '' @ Error_text err)],
                Some err)
           | (cfg', lg, None) \<Rightarrow>
               logged ([LogInfo ''Updating config with urls file''] @ lg
                       @ [LogInfo ''Scan templates from config''])
                 (createFromConfig env fs cfg' pCfg))
        else
          logged [LogInfo ''Scan templates from config''] (createFromConfig env fs cfg pCfg))"

text \<open>\<^verbatim>\<open>scan.ParamsCfg{}\<close>: the zero value.\<close>

definition ParamsCfg_zero :: ParamsCfg where
  "ParamsCfg_zero = \<lparr>Params = [], Size = 0, ParamsCfg.Method = [], Encoding = []\<rparr>"

definition PrepareTemplates :: "Env \<Rightarrow> FileSystem \<Rightarrow> Config \<Rightarrow> outcome" where
  "PrepareTemplates env fs cfg =
     (if length (ParamsFile cfg) > 0 then
        (case readParamsFile env (ParamsFile cfg) of
           (lg, Inr params) \<Rightarrow>
             logged lg
               (createTemplates env fs cfg
                  \<lparr>Params = params, Size = ParamsSplit cfg,
                   ParamsCfg.Method = strings_ToUpper env (ParamsMethod cfg),
                   Encoding = strings_ToLower env (ParamsEncoding cfg)\<rparr>)
         | (lg, Inl err) \<Rightarrow>
             logged (lg @ [LogError (''Error while reading params file: '' @ Error_text err)])
               (createTemplates env fs cfg ParamsCfg_zero))
      else createTemplates env fs cfg ParamsCfg_zero)"

section \<open>The query extractor (\<^verbatim>\<open>extractor_req_query.go\<close>)\<close>

text \<open>\<^verbatim>\<open>profile.InsertionPointType\<close>: the two values the file names, and the others of the
  package.\<close>

datatype InsertionPointType = ParamURLName | ParamURLValue | OtherInsertionPointType string

text \<open>A value of the interface \<^verbatim>\<open>entrypoint.Entrypoint\<close>: of dynamic type
  \<^verbatim>\<open>entrypoint.Query\<close>, or of another type; each with what its methods
  \<^verbatim>\<open>InsertionPointType()\<close> and \<^verbatim>\<open>Value()\<close> return.\<close>

datatype Entrypoint =
    Query InsertionPointType string
  | OtherEntrypoint InsertionPointType string

text \<open>The loop of \<^verbatim>\<open>reqQueryBytes\<close> over the finder's result, \<open>b\<close> being the buffer.\<close>

fun reqQueryLoop :: "InsertionPointType \<Rightarrow> Entrypoint list \<Rightarrow> bytes \<Rightarrow> bytes" where
  "reqQueryLoop ipt [] b = b"
| "reqQueryLoop ipt (Query t v # es) b =
     (if t = ipt then reqQueryLoop ipt es (b @ v) else reqQueryLoop ipt es b)"
| "reqQueryLoop ipt (OtherEntrypoint t v # es) b = reqQueryLoop ipt es b"

text \<open>\<open>Find\<close> stands for \<^verbatim>\<open>entrypoint.NewQueryFinder().Find\<close>.\<close>

definition reqQueryBytes ::
  "(Request \<Rightarrow> Entrypoint list) \<Rightarrow> Request \<Rightarrow> InsertionPointType \<Rightarrow> bytes" where
  "reqQueryBytes Find req ipt = reqQueryLoop ipt (Find req) []"

definition reqQueryNameBytes :: "(Request \<Rightarrow> Entrypoint list) \<Rightarrow> Request \<Rightarrow> bytes" where
  "reqQueryNameBytes Find req = reqQueryBytes Find req ParamURLName"

definition reqQueryValueBytes :: "(Request \<Rightarrow> Entrypoint list) \<Rightarrow> Request \<Rightarrow> bytes" where
  "reqQueryValueBytes Find req = reqQueryBytes Find req ParamURLValue"

text \<open>
  Modelled from the spec: the query finder of package \<^verbatim>\<open>entrypoint\<close> is not among the
  sources. By the spec it enumerates every query-string key and every query-string value
  of the request's URL in URL parameter order, a key as one name insertion point and a
  value as one value insertion point. The query string is taken to start after the first
  question mark of the target, its parameters to be separated by ampersands, and a key
  to end at the first equals sign.
\<close>

fun splitOn :: "char \<Rightarrow> string \<Rightarrow> string list" where
  "splitOn c [] = [[]]"
| "splitOn c (x # xs) =
     (if x = c then [] # splitOn c xs
      else (case splitOn c xs of [] \<Rightarrow> [[x]] | w # ws \<Rightarrow> (x # w) # ws))"

definition queryString :: "Request \<Rightarrow> string" where
  "queryString req = (if CHR ''?'' \<in> set (req_target req)
                      then tl (dropWhile (\<lambda>c. c \<noteq> CHR ''?'') (req_target req)) else [])"

fun queryEntrypoints :: "string list \<Rightarrow> Entrypoint list" where
  "queryEntrypoints [] = []"
| "queryEntrypoints (p # ps) =
     (if p = [] then queryEntrypoints ps
      else if CHR ''='' \<in> set p then
        Query ParamURLName (takeWhile (\<lambda>c. c \<noteq> CHR ''='') p)
        # Query ParamURLValue (tl (dropWhile (\<lambda>c. c \<noteq> CHR ''='') p))
        # queryEntrypoints ps
      else Query ParamURLName p # queryEntrypoints ps)"

definition QueryFinder_Find :: "Request \<Rightarrow> Entrypoint list" where
  "QueryFinder_Find req = queryEntrypoints (splitOn CHR ''&'' (queryString req))"

text \<open>In the words of the spec: the insertion points whose sub-kind matches, and the
  payload of one.\<close>

fun matches :: "InsertionPointType \<Rightarrow> Entrypoint \<Rightarrow> bool" where
  "matches ipt (Query t v) = (t = ipt)"
| "matches ipt (OtherEntrypoint t v) = False"

fun payload :: "Entrypoint \<Rightarrow> bytes" where
  "payload (Query t v) = v"
| "payload (OtherEntrypoint t v) = v"

section \<open>An environment and a configuration to run the pipeline on\<close>

fun applyOption :: "Request \<Rightarrow> Option \<Rightarrow> Request" where
  "applyOption req (WithMethod m) = req\<lparr>req_method := m\<rparr>"
| "applyOption req (WithData d) = req\<lparr>req_body := d\<rparr>"
| "applyOption req (WithHeader k v) = req\<lparr>req_headers := req_headers req @ [(k, v)]\<rparr>"

definition example_ReadFile :: "string \<Rightarrow> error + bytes" where
  "example_ReadFile path =
     (if path = ''params.txt''
      then Inr (''id'' @ [CHR 0x0A] @ ''name'' @ [CHR 0x0A] @ ''lang'' @ [CHR 0x0A])
      else if path = ''first.req'' then Inr ''GET /a HTTP/1.1''
      else if path = ''second.req'' then Inr ''GET /b HTTP/1.1''
      else if path = ''long-params.txt''
      then Inr (''id'' @ [CHR 0x0A] @ replicate 70000 (CHR ''a'') @ [CHR 0x0A]
                @ ''name'' @ [CHR 0x0A])
      else Inl (PathError ''open'' path (Opaque ''no such file or directory'')))"

definition example_Open :: "string \<Rightarrow> error + File" where
  "example_Open path =
     (if path = ''urls.txt''
      then Inr \<lparr>delivered = ''http://a.example'' @ [CHR 0x0A] @ ''not a url'' @ [CHR 0x0A],
                read_err = None\<rparr>
      else if path = ''long-urls.txt''
      then Inr \<lparr>delivered = replicate 70000 (CHR ''a''), read_err = None\<rparr>
      else if path = ''/tmp''
      then Inr \<lparr>delivered = [],
                read_err = Some (PathError ''read'' ''/tmp'' (Opaque ''is a directory''))\<rparr>
      else Inl (PathError ''open'' path (Opaque ''no such file or directory'')))"

definition example_Validate :: "string \<Rightarrow> string \<times> error option" where
  "example_Validate u =
     (if HasPrefix u ''http://'' then (u, None) else (u, Some (Opaque ''invalid url'')))"

definition example_env :: Env where
  "example_env =
     \<lparr>os_ReadFile = example_ReadFile,
      os_Open = example_Open,
      url_Validate = example_Validate,
      request_WithOptions =
        (\<lambda>u options. foldl applyOption
           \<lparr>req_method = ''GET'', req_target = u, req_headers = [], req_body = []\<rparr> options),
      request_ParseRequest =
        (\<lambda>bs. if bs = [] then Inl (Opaque ''empty request'')
              else Inr \<lparr>req_method = ''GET'', req_target = bs, req_headers = [], req_body = []\<rparr>),
      request_WithParams = (\<lambda>pCfg batch req. req\<lparr>req_body := Join batch ''&''\<rparr>),
      scan_TemplatesFromZipBytes = (\<lambda>pCfg bs. Inr []),
      StoreTemplate_err = (\<lambda>fs tpl. None),
      strings_ToUpper = (\<lambda>s. s),
      strings_ToLower = (\<lambda>s. s),
      MultiValue_String = (\<lambda>xs. Join xs '',''),
      format_MultiValue = (\<lambda>xs. Join xs '','')\<rparr>"

definition example_cfg :: Config where
  "example_cfg =
     \<lparr>ParamsFile = [], ParamsSplit = 0, ParamsMethod = [], ParamsEncoding = [],
      RequestsFile = [], RawRequests = [], UrlsFile = [], URLS = [],
      Method = [], Data = [], Headers = [], OutPath = ''out''\<rparr>"

section \<open>Notions used to state the properties\<close>

text \<open>A store that accepts every template.\<close>

definition accepting :: "Env \<Rightarrow> bool" where
  "accepting env = (\<forall>fs tpl. StoreTemplate_err env fs tpl = None)"

text \<open>A URL that \<^verbatim>\<open>url.Validate\<close> accepts.\<close>

definition valid_url :: "Env \<Rightarrow> string \<Rightarrow> bool" where
  "valid_url env u = (snd (url_Validate env u) = None)"

text \<open>The result of the option-building part of \<^verbatim>\<open>createFromConfig\<close>, and the records it
  logs.\<close>

definition configOptions :: "Env \<Rightarrow> Config \<Rightarrow> error + Option list" where
  "configOptions env cfg =
     headerOptions (Headers cfg) (fst (methodOptions cfg) @ fst (dataOptions env cfg))"

definition configLog :: "Env \<Rightarrow> Config \<Rightarrow> log_entry list" where
  "configLog env cfg =
     snd (methodOptions cfg) @ snd (dataOptions env cfg)
     @ (if length (Headers cfg) > 0
        then [LogInfo (''HTTP headers inherited from config: '' @ MultiValue_String env (Headers cfg))]
        else [])"

text \<open>The templates the URL loop of \<^verbatim>\<open>createFromConfig\<close> builds for a list of URLs up
  to the first invalid one, the counter starting at \<open>i\<close>.\<close>

fun builtFor :: "Env \<Rightarrow> ParamsCfg \<Rightarrow> Option list \<Rightarrow> string list \<Rightarrow> int \<Rightarrow> Template list" where
  "builtFor env pCfg options [] i = []"
| "builtFor env pCfg options (u # us) i =
     (case url_Validate env u of
        (cfgURL, Some err) \<Rightarrow> []
      | (cfgURL, None) \<Rightarrow>
          (let ts = Alter env pCfg (NewTemplate i (request_WithOptions env cfgURL options) None)
           in ts @ builtFor env pCfg options us (i + int (length ts))))"

text \<open>Indices that go up by one from \<open>i\<close>.\<close>

fun consecutive :: "int \<Rightarrow> Template list \<Rightarrow> bool" where
  "consecutive i [] = True"
| "consecutive i (t # ts) = (Idx t = i \<and> consecutive (i + 1) ts)"

text \<open>What the loop of \<^verbatim>\<open>updateConfigWithURLS\<close> makes of the scanner's lines: the
  lines that pass validation, as \<^verbatim>\<open>url.Validate\<close> left them, and one warning for each
  line that does not.\<close>

definition survivors :: "Env \<Rightarrow> string list \<Rightarrow> string list" where
  "survivors env lines = map (\<lambda>l. fst (url_Validate env l)) (filter (valid_url env) lines)"

definition skip_warning :: "Env \<Rightarrow> string \<Rightarrow> string \<Rightarrow> log_entry" where
  "skip_warning env urlsFile l =
     LogWarn (''Skipping url(s) file ('' @ urlsFile @ '') line ('' @ fst (url_Validate env l)
              @ '') - not a valid url: ''
              @ (case snd (url_Validate env l) of None \<Rightarrow> [] | Some err \<Rightarrow> Error_text err))"

definition warnings :: "Env \<Rightarrow> string \<Rightarrow> string list \<Rightarrow> log_entry list" where
  "warnings env urlsFile lines =
     map (skip_warning env urlsFile) (filter (\<lambda>l. \<not> valid_url env l) lines)"

text \<open>The lines of a file: the text between line feeds, and the text after the last
  line feed when there is some.\<close>

function file_lines :: "bytes \<Rightarrow> string list" where
  "file_lines data =
     (if data = [] then []
      else if CHR 0x0A \<in> set data then
        takeWhile (\<lambda>c. c \<noteq> CHR 0x0A) data # file_lines (tl (dropWhile (\<lambda>c. c \<noteq> CHR 0x0A) data))
      else [data])"
  by pat_completeness auto
termination
  by (relation "measure length") (simp_all add: length_tl_dropWhile del: length_tl)

declare file_lines.simps [simp del]

section \<open>Properties of the query extractor\<close>

lemma reqQueryLoop_concat:
  "reqQueryLoop ipt es b = b @ concat (map payload (filter (matches ipt) es))"
  by (induction ipt es b rule: reqQueryLoop.induct) simp_all

lemma QueryFinder_Find_example:
  "QueryFinder_Find \<lparr>req_method = ''GET'', req_target = ''/search?a=1&b=2&a=3'', req_headers = [], req_body = []\<rparr>
   = [Query ParamURLName ''a'', Query ParamURLValue ''1'',
      Query ParamURLName ''b'', Query ParamURLValue ''2'',
      Query ParamURLName ''a'', Query ParamURLValue ''3'']"
  by (simp add: QueryFinder_Find_def queryString_def)

text \<open>
  C6. For every request and sub-kind the extractor returns the concatenation, in finder
  order, of the payloads of exactly the query insertion points of that sub-kind. On the
  query string \<open>a=1&b=2&a=3\<close> the names give \<open>aba\<close> and the values \<open>123\<close>; a request with
  no matching insertion point gives the empty buffer.
\<close>

theorem reqQueryBytes_extracts:
  "reqQueryBytes Find req ipt = concat (map payload (filter (matches ipt) (Find req)))
   \<and> reqQueryNameBytes QueryFinder_Find
        \<lparr>req_method = ''GET'', req_target = ''/search?a=1&b=2&a=3'', req_headers = [], req_body = []\<rparr> = ''aba''
   \<and> reqQueryValueBytes QueryFinder_Find
        \<lparr>req_method = ''GET'', req_target = ''/search?a=1&b=2&a=3'', req_headers = [], req_body = []\<rparr> = ''123''
   \<and> ((\<forall>e \<in> set (Find req). \<not> matches ipt e) \<longrightarrow> reqQueryBytes Find req ipt = [])"
proof -
  have general: "reqQueryBytes Find req ipt = concat (map payload (filter (matches ipt) (Find req)))"
    by (simp add: reqQueryBytes_def reqQueryLoop_concat)
  have names: "reqQueryNameBytes QueryFinder_Find
        \<lparr>req_method = ''GET'', req_target = ''/search?a=1&b=2&a=3'', req_headers = [], req_body = []\<rparr> = ''aba''"
    by (simp add: reqQueryNameBytes_def reqQueryBytes_def QueryFinder_Find_example)
  have vals: "reqQueryValueBytes QueryFinder_Find
        \<lparr>req_method = ''GET'', req_target = ''/search?a=1&b=2&a=3'', req_headers = [], req_body = []\<rparr> = ''123''"
    by (simp add: reqQueryValueBytes_def reqQueryBytes_def QueryFinder_Find_example)
  have none: "(\<forall>e \<in> set (Find req). \<not> matches ipt e) \<longrightarrow> reqQueryBytes Find req ipt = []"
  proof
    assume "\<forall>e \<in> set (Find req). \<not> matches ipt e"
    then have "filter (matches ipt) (Find req) = []"
      by (simp add: filter_empty_conv)
    with general show "reqQueryBytes Find req ipt = []" by simp
  qed
  from general names vals none show ?thesis by blast
qed

theorem reqQueryBytes_extracts_witness:
  "reqQueryBytes QueryFinder_Find
     \<lparr>req_method = ''GET'', req_target = ''/index.html'', req_headers = [], req_body = []\<rparr> ParamURLValue = []
   \<and> reqQueryBytes QueryFinder_Find
     \<lparr>req_method = ''GET'', req_target = ''/p?id=7&lang'', req_headers = [], req_body = []\<rparr> ParamURLName
       = ''idlang''"
  using reqQueryBytes_extracts
          [of QueryFinder_Find
              "\<lparr>req_method = ''GET'', req_target = ''/index.html'', req_headers = [], req_body = []\<rparr>"
              ParamURLValue]
        reqQueryBytes_extracts
          [of QueryFinder_Find
              "\<lparr>req_method = ''GET'', req_target = ''/p?id=7&lang'', req_headers = [], req_body = []\<rparr>"
              ParamURLName]
  by (simp add: QueryFinder_Find_def queryString_def)

section \<open>Properties of the inline-config path\<close>

lemma length_SplitN_colon_2: "length (SplitN_colon_2 s) = 2 \<longleftrightarrow> CHR '':'' \<in> set s"
  by (simp add: SplitN_colon_2_def)

lemma headerOptions_first_invalid:
  "find (\<lambda>h. CHR '':'' \<notin> set h) hs = Some h
   \<Longrightarrow> headerOptions hs options = Inl (Errorf_colon ErrInvalidHeader h)"
  by (induction hs arbitrary: options) (auto simp: length_SplitN_colon_2 split: if_splits)

lemma headerOptions_all_valid:
  "find (\<lambda>h. CHR '':'' \<notin> set h) hs = None
   \<Longrightarrow> headerOptions hs options =
       Inr (options @ map (\<lambda>h. WithHeader (TrimSpace (takeWhile (\<lambda>c. c \<noteq> CHR '':'') h))
                                         (TrimSpace (tl (dropWhile (\<lambda>c. c \<noteq> CHR '':'') h)))) hs)"
  by (induction hs arbitrary: options) (auto simp: SplitN_colon_2_def split: if_splits)

lemma find_invalid_header:
  "\<exists>h \<in> set hs. CHR '':'' \<notin> set h \<Longrightarrow> \<exists>h. find (\<lambda>h. CHR '':'' \<notin> set h) hs = Some h \<and> h \<in> set hs \<and> CHR '':'' \<notin> set h"
  by (induction hs) auto

lemma accepting_example: "accepting example_env"
  by (simp add: accepting_def example_env_def)

lemma example_valid_urls:
  "valid_url example_env ''http://a.example''" "valid_url example_env ''http://b.example''"
  "valid_url example_env ''http://c.example''"
  "\<not> valid_url example_env ''ftp://x''" "\<not> valid_url example_env ''not a url''"
  by (simp_all add: valid_url_def example_env_def example_Validate_def HasPrefix_def)

lemma example_Validate_fst: "fst (url_Validate example_env u) = u"
  by (simp add: example_env_def example_Validate_def)

lemma example_template_a:
  "createFromConfig example_env [] (example_cfg\<lparr>URLS := [''http://a.example'']\<rparr>) ParamsCfg_zero
   = ([\<lparr>Idx = 0,
        Req = \<lparr>req_method = ''GET'', req_target = ''http://a.example'',
                req_headers = [], req_body = []\<rparr>,
        Resp = None\<rparr>], [], None)"
  by (simp add: createFromConfig_def methodOptions_def dataOptions_def example_cfg_def
        example_env_def example_Validate_def HasPrefix_def ParamsCfg_zero_def Alter_def
        NewTemplate_def StoreTemplate_def logged_def)

lemma storeConfig_accepting:
  "accepting env \<Longrightarrow>
   storeConfig env cfgURL tpls tplIdx fs = (tplIdx + int (length tpls), fs @ tpls, [], None)"
  by (induction tpls arbitrary: tplIdx fs) (simp_all add: accepting_def StoreTemplate_def)

lemma logged_Nil [simp]: "logged [] r = r"
  by (simp add: logged_def split: prod.splits)

lemma fst_logged [simp]: "fst (logged l r) = fst r"
  by (simp add: logged_def split: prod.splits)

lemma configURLs_accepting:
  "accepting env \<Longrightarrow>
   fst (configURLs env pCfg options us tplIdx fs) = fs @ builtFor env pCfg options us tplIdx"
  by (induction us arbitrary: tplIdx fs)
     (auto simp: storeConfig_accepting Let_def split: prod.splits option.splits)

lemma Alter_no_params: "Params pCfg = [] \<Longrightarrow> Alter env pCfg tpl = [tpl]"
  by (simp add: Alter_def)

lemma builtFor_no_params:
  "Params pCfg = [] \<Longrightarrow>
   builtFor env pCfg options us (int n) =
     map (\<lambda>(k, u). NewTemplate (int k) (request_WithOptions env (fst (url_Validate env u)) options) None)
         (enumerate n (takeWhile (valid_url env) us))"
proof (induction us arbitrary: n)
  case Nil
  then show ?case by simp
next
  case (Cons u us)
  obtain cfgURL e where v: "url_Validate env u = (cfgURL, e)"
    by (cases "url_Validate env u")
  show ?case
  proof (cases e)
    case None
    have step: "int n + int (Suc 0) = int (Suc n)"
      by simp
    have ok: "valid_url env u"
      using v None by (simp add: valid_url_def)
    have "builtFor env pCfg options (u # us) (int n) =
            NewTemplate (int n) (request_WithOptions env cfgURL options) None
            # builtFor env pCfg options us (int (Suc n))"
      using v None Cons.prems by (simp add: Alter_no_params step del: of_nat_Suc)
    also have "builtFor env pCfg options us (int (Suc n)) =
            map (\<lambda>(k, u). NewTemplate (int k)
                   (request_WithOptions env (fst (url_Validate env u)) options) None)
                (enumerate (Suc n) (takeWhile (valid_url env) us))"
      using Cons.IH[OF Cons.prems] .
    finally show ?thesis
      using v ok by simp
  next
    case (Some err)
    have "\<not> valid_url env u"
      using v Some by (simp add: valid_url_def)
    with v Some show ?thesis by simp
  qed
qed

lemma length_builtFor_no_params:
  "Params pCfg = [] \<Longrightarrow>
   length (builtFor env pCfg options us (int n)) = length (takeWhile (valid_url env) us)"
  by (simp add: builtFor_no_params)

lemma createFromConfig_eq:
  "createFromConfig env fs cfg pCfg =
     (case configOptions env cfg of
        Inl err \<Rightarrow> (fs, configLog env cfg, Some err)
      | Inr options \<Rightarrow> logged (configLog env cfg) (configURLs env pCfg options (URLS cfg) 0 fs))"
  by (simp add: createFromConfig_def configOptions_def configLog_def Let_def split: prod.splits sum.splits)

lemma logged_eq_iff:
  "logged l r = (fs, lg, e) \<longleftrightarrow> (\<exists>lg'. r = (fs, lg', e) \<and> lg = l @ lg')"
  by (cases r) (auto simp: logged_def)

lemma logged_triple [simp]: "logged l (fs, lg, e) = (fs, l @ lg, e)"
  by (simp add: logged_def)

lemma configURLs_append_invalid:
  assumes "configURLs env pCfg options vs i fs = (fs', lg, None)"
      and "url_Validate env bad = (b, Some err)"
  shows "configURLs env pCfg options (vs @ bad # rest) i fs =
           (fs', lg @ [LogError (''Error while validating url ('' @ b @ ''): '' @ Error_text err)],
            Some err)"
  using assms
proof (induction vs arbitrary: i fs lg)
  case Nil
  then show ?case by simp
next
  case (Cons u us)
  obtain cfgURL e where v: "url_Validate env u = (cfgURL, e)"
    by (cases "url_Validate env u")
  from Cons.prems(1) v have e: "e = None"
    by (cases e) simp_all
  obtain j fs1 l1 e1 where st:
    "storeConfig env cfgURL
       (Alter env pCfg (NewTemplate i (request_WithOptions env cfgURL options) None)) i fs
     = (j, fs1, l1, e1)"
    by (metis prod_cases4)
  from Cons.prems(1) v e st have e1: "e1 = None"
    by (cases e1) simp_all
  from Cons.prems(1) v e st e1 obtain lg' where
    rest: "configURLs env pCfg options us j fs1 = (fs', lg', None)" and lg: "lg = l1 @ lg'"
    by (auto simp: logged_eq_iff)
  from Cons.IH[OF rest Cons.prems(2)] v e st e1 lg show ?case
    by simp
qed

lemma storeConfig_grows: "\<exists>new. fst (snd (storeConfig env cfgURL tpls i fs)) = fs @ new"
proof (induction tpls arbitrary: i fs)
  case Nil
  then show ?case by simp
next
  case (Cons t ts)
  show ?case
  proof (cases "StoreTemplate_err env fs t")
    case None
    from Cons[of "i + 1" "fs @ [t]"] obtain new where
      "fst (snd (storeConfig env cfgURL ts (i + 1) (fs @ [t]))) = (fs @ [t]) @ new" by blast
    with None show ?thesis by (simp add: StoreTemplate_def)
  next
    case (Some e)
    then show ?thesis by (simp add: StoreTemplate_def)
  qed
qed

lemma configURLs_grows: "\<exists>new. fst (configURLs env pCfg options us i fs) = fs @ new"
proof (induction us arbitrary: i fs)
  case Nil
  then show ?case by simp
next
  case (Cons u us)
  obtain cfgURL e where v: "url_Validate env u = (cfgURL, e)"
    by (cases "url_Validate env u")
  show ?case
  proof (cases e)
    case None
    obtain j fs1 l1 e1 where st:
      "storeConfig env cfgURL
         (Alter env pCfg (NewTemplate i (request_WithOptions env cfgURL options) None)) i fs
       = (j, fs1, l1, e1)"
      by (metis prod_cases4)
    from storeConfig_grows[of env cfgURL _ i fs] st obtain new1 where n1: "fs1 = fs @ new1"
      by (metis fst_conv snd_conv)
    from Cons[of j fs1] obtain new2 where
      n2: "fst (configURLs env pCfg options us j fs1) = fs1 @ new2" by blast
    from v None st n1 n2 show ?thesis
      by (cases e1) auto
  next
    case (Some err)
    with v show ?thesis by simp
  qed
qed

lemma createFromConfig_grows: "\<exists>new. fst (createFromConfig env fs cfg pCfg) = fs @ new"
  using configURLs_grows[of env pCfg _ "URLS cfg" 0 fs]
  by (cases "configOptions env cfg") (auto simp: createFromConfig_eq)

lemma configOptions_URLS [simp]: "configOptions env (cfg\<lparr>URLS := us\<rparr>) = configOptions env cfg"
  by (simp add: configOptions_def methodOptions_def dataOptions_def)

lemma configLog_URLS [simp]: "configLog env (cfg\<lparr>URLS := us\<rparr>) = configLog env cfg"
  by (simp add: configLog_def methodOptions_def dataOptions_def)

text \<open>
  C10. Persistence in the inline-config path is not atomic across URLs. When the run over
  a list of URLs succeeds (they are valid, and their templates are stored), the run over
  that list followed by an invalid URL aborts at the invalid URL with its validation
  error and leaves the store exactly as the successful run left it: the earlier store
  with the templates of the preceding URLs appended. Nothing is rolled back.
\<close>

theorem createFromConfig_no_rollback:
  assumes "createFromConfig env fs (cfg\<lparr>URLS := vs\<rparr>) pCfg = (fs', lg, None)"
      and "url_Validate env bad = (b, Some err)"
  shows "createFromConfig env fs (cfg\<lparr>URLS := vs @ bad # rest\<rparr>) pCfg =
           (fs', lg @ [LogError (''Error while validating url ('' @ b @ ''): '' @ Error_text err)],
            Some err)
         \<and> (\<exists>new. fs' = fs @ new)
         \<and> (\<forall>options. accepting env \<and> configOptions env cfg = Inr options
               \<longrightarrow> fs' = fs @ builtFor env pCfg options vs 0)"
proof -
  from assms(1) obtain options where
    opts: "configOptions env cfg = Inr options"
    by (cases "configOptions env cfg") (auto simp: createFromConfig_eq)
  from assms(1) opts obtain lg' where
    run: "configURLs env pCfg options vs 0 fs = (fs', lg', None)" and lg: "lg = configLog env cfg @ lg'"
    by (auto simp: createFromConfig_eq logged_eq_iff)
  have abort: "createFromConfig env fs (cfg\<lparr>URLS := vs @ bad # rest\<rparr>) pCfg =
           (fs', lg @ [LogError (''Error while validating url ('' @ b @ ''): '' @ Error_text err)],
            Some err)"
    using configURLs_append_invalid[OF run assms(2), of rest] opts lg
    by (simp add: createFromConfig_eq)
  have grows: "\<exists>new. fs' = fs @ new"
    using createFromConfig_grows[of env fs "cfg\<lparr>URLS := vs\<rparr>" pCfg] assms(1) by simp
  have built: "accepting env \<and> configOptions env cfg = Inr options'
               \<longrightarrow> fs' = fs @ builtFor env pCfg options' vs 0" for options'
    using configURLs_accepting[of env pCfg options vs 0 fs] run opts by auto
  from abort grows built show ?thesis by blast
qed

theorem createFromConfig_no_rollback_witness:
  "createFromConfig example_env []
     (example_cfg\<lparr>URLS := [''http://a.example'', ''ftp://x'', ''http://b.example'']\<rparr>)
     ParamsCfg_zero
   = ([\<lparr>Idx = 0,
        Req = \<lparr>req_method = ''GET'', req_target = ''http://a.example'',
                req_headers = [], req_body = []\<rparr>,
        Resp = None\<rparr>],
      [LogError ''Error while validating url (ftp://x): invalid url''],
      Some (Opaque ''invalid url''))"
proof -
  have run: "createFromConfig example_env [] (example_cfg\<lparr>URLS := [''http://a.example'']\<rparr>)
               ParamsCfg_zero
             = ([\<lparr>Idx = 0,
                  Req = \<lparr>req_method = ''GET'', req_target = ''http://a.example'',
                          req_headers = [], req_body = []\<rparr>,
                  Resp = None\<rparr>], [], None)"
    by (simp add: createFromConfig_def methodOptions_def dataOptions_def example_cfg_def
          example_env_def example_Validate_def HasPrefix_def ParamsCfg_zero_def Alter_def
          NewTemplate_def StoreTemplate_def)
  have bad: "url_Validate example_env ''ftp://x'' = (''ftp://x'', Some (Opaque ''invalid url''))"
    by (simp add: example_env_def example_Validate_def HasPrefix_def)
  from createFromConfig_no_rollback[OF run bad, of "[''http://b.example'']"]
  show ?thesis by simp
qed

text \<open>
  C3. When some header override of the configuration contains no colon, the
  inline-config path returns the invalid-header error, made for the first such header,
  and leaves the store as it was. No URL is validated, no request is built and the store
  is not called: the outcome is the same for every URL list and whatever these
  collaborators would do.
\<close>

theorem createFromConfig_invalid_header_aborts:
  assumes "\<exists>h \<in> set (Headers cfg). CHR '':'' \<notin> set h"
  shows "\<exists>h. h \<in> set (Headers cfg) \<and> CHR '':'' \<notin> set h
           \<and> find (\<lambda>h. CHR '':'' \<notin> set h) (Headers cfg) = Some h
           \<and> createFromConfig env fs cfg pCfg
               = (fs, configLog env cfg, Some (Errorf_colon ErrInvalidHeader h))
           \<and> errors_Is (Errorf_colon ErrInvalidHeader h) ErrInvalidHeader
           \<and> (\<forall>us validate build store.
                 createFromConfig
                   (env\<lparr>url_Validate := validate, request_WithOptions := build,
                        StoreTemplate_err := store\<rparr>)
                   fs (cfg\<lparr>URLS := us\<rparr>) pCfg
                 = createFromConfig env fs cfg pCfg)"
proof -
  from find_invalid_header[OF assms] obtain h where
    h: "find (\<lambda>h. CHR '':'' \<notin> set h) (Headers cfg) = Some h"
       "h \<in> set (Headers cfg)" "CHR '':'' \<notin> set h"
    by blast
  have opts: "configOptions e c = Inl (Errorf_colon ErrInvalidHeader h)"
    if "Headers c = Headers cfg" for e c
    using headerOptions_first_invalid[OF h(1)] that by (simp add: configOptions_def)
  have run: "createFromConfig e fs c pCfg
               = (fs, configLog e c, Some (Errorf_colon ErrInvalidHeader h))"
    if "Headers c = Headers cfg" for e c
    using opts[OF that] by (simp add: createFromConfig_eq)
  have same: "createFromConfig
                (env\<lparr>url_Validate := validate, request_WithOptions := build,
                     StoreTemplate_err := store\<rparr>)
                fs (cfg\<lparr>URLS := us\<rparr>) pCfg
              = createFromConfig env fs cfg pCfg" for us validate build store
    by (simp add: run configLog_def methodOptions_def dataOptions_def)
  have "errors_Is (Errorf_colon ErrInvalidHeader h) ErrInvalidHeader"
    by (simp add: Errorf_colon_def)
  with h run[of cfg env] same show ?thesis by blast
qed

theorem createFromConfig_invalid_header_aborts_witness:
  "createFromConfig example_env []
     (example_cfg\<lparr>URLS := [''http://a.example''], Headers := [''Accept: */*'', ''X-Test'']\<rparr>)
     ParamsCfg_zero
   = ([], [LogInfo ''HTTP headers inherited from config: Accept: */*,X-Test''],
      Some (Errorf_w ErrInvalidHeader ''invalid header: X-Test''))"
proof -
  have bad: "\<exists>h \<in> set (Headers (example_cfg\<lparr>URLS := [''http://a.example''],
                                               Headers := [''Accept: */*'', ''X-Test'']\<rparr>)).
               CHR '':'' \<notin> set h"
    by simp
  from createFromConfig_invalid_header_aborts[OF bad, of example_env "[]" ParamsCfg_zero]
  show ?thesis
    by (simp add: configLog_def methodOptions_def dataOptions_def example_cfg_def
          example_env_def Errorf_colon_def)
qed

text \<open>
  C2. With an empty parameter list, \<open>Alter\<close> returns the one-element list of its argument,
  unchanged. In the inline-config path the URL loop stops at the first URL that fails
  validation, so not every valid URL leaves a template: when the options are built and
  the store accepts what it is given, every valid URL before the first invalid one
  leaves exactly one template in the store, the base template of that URL, the indices
  counting from 0, and the URLs from the first invalid one on leave none.
\<close>

theorem Alter_identity_without_params:
  assumes "Params pCfg = []"
  shows "Alter env pCfg t = [t]
         \<and> (\<forall>options. accepting env \<and> configOptions env cfg = Inr options \<longrightarrow>
              fst (createFromConfig env fs cfg pCfg)
                = fs @ map (\<lambda>(k, u). NewTemplate (int k)
                             (request_WithOptions env (fst (url_Validate env u)) options) None)
                         (enumerate 0 (takeWhile (valid_url env) (URLS cfg)))
              \<and> length (fst (createFromConfig env fs cfg pCfg))
                = length fs + length (takeWhile (valid_url env) (URLS cfg)))"
proof -
  have stored: "fst (createFromConfig env fs cfg pCfg)
                = fs @ map (\<lambda>(k, u). NewTemplate (int k)
                             (request_WithOptions env (fst (url_Validate env u)) options) None)
                         (enumerate 0 (takeWhile (valid_url env) (URLS cfg)))"
    if "accepting env" "configOptions env cfg = Inr options" for options
    using that configURLs_accepting[of env pCfg options "URLS cfg" 0 fs]
          builtFor_no_params[OF assms, of env options "URLS cfg" 0]
    by (simp add: createFromConfig_eq)
  have counted: "length (fst (createFromConfig env fs cfg pCfg))
                = length fs + length (takeWhile (valid_url env) (URLS cfg))"
    if "accepting env" "configOptions env cfg = Inr options" for options
    using stored[OF that] by simp
  from Alter_no_params[OF assms] stored counted show ?thesis by blast
qed

theorem Alter_identity_without_params_witness:
  "Alter example_env ParamsCfg_zero (NewTemplate 7 (request_WithOptions example_env ''http://t'' []) None)
     = [\<lparr>Idx = 7,
         Req = \<lparr>req_method = ''GET'', req_target = ''http://t'', req_headers = [], req_body = []\<rparr>,
         Resp = None\<rparr>]
   \<and> map Idx (fst (createFromConfig example_env []
                     (example_cfg\<lparr>URLS := [''http://a.example'', ''http://b.example'',
                                           ''ftp://x'', ''http://c.example'']\<rparr>)
                     ParamsCfg_zero)) = [0, 1]"
proof -
  have p: "Params ParamsCfg_zero = []"
    by (simp add: ParamsCfg_zero_def)
  have o: "configOptions example_env
             (example_cfg\<lparr>URLS := [''http://a.example'', ''http://b.example'',
                                   ''ftp://x'', ''http://c.example'']\<rparr>) = Inr []"
    by (simp add: configOptions_def methodOptions_def dataOptions_def example_cfg_def)
  from Alter_identity_without_params[OF p, of example_env
         "NewTemplate 7 (request_WithOptions example_env ''http://t'' []) None"
         "example_cfg\<lparr>URLS := [''http://a.example'', ''http://b.example'',
                               ''ftp://x'', ''http://c.example'']\<rparr>" "[]"]
       accepting_example o example_valid_urls
  show ?thesis
    by (simp add: NewTemplate_def example_env_def example_cfg_def)
qed

text \<open>Valid URLs that leave no template: one that follows an invalid URL, one whose
  template the store refuses, and one configured with a header override that has no
  colon.\<close>

theorem valid_url_after_invalid_not_persisted:
  "Params ParamsCfg_zero = []
   \<and> valid_url example_env ''http://b.example''
   \<and> createFromConfig example_env [] (example_cfg\<lparr>URLS := [''ftp://x'', ''http://b.example'']\<rparr>)
        ParamsCfg_zero
     = ([], [LogError ''Error while validating url (ftp://x): invalid url''],
        Some (Opaque ''invalid url''))
   \<and> valid_url (example_env\<lparr>StoreTemplate_err := (\<lambda>fs tpl. Some (Opaque ''disk full''))\<rparr>)
        ''http://a.example''
   \<and> createFromConfig (example_env\<lparr>StoreTemplate_err := (\<lambda>fs tpl. Some (Opaque ''disk full''))\<rparr>) []
        (example_cfg\<lparr>URLS := [''http://a.example'']\<rparr>) ParamsCfg_zero
     = ([], [LogError ''Error while building scan template: disk full''],
        Some (Errorf_w ErrProcessRequestFile
                ''could not process request(s) file(http://a.example): disk full''))
   \<and> valid_url example_env ''http://a.example''
   \<and> createFromConfig example_env []
        (example_cfg\<lparr>URLS := [''http://a.example''], Headers := [''X-Test'']\<rparr>) ParamsCfg_zero
     = ([], [LogInfo ''HTTP headers inherited from config: X-Test''],
        Some (Errorf_w ErrInvalidHeader ''invalid header: X-Test''))"
proof -
  have a: "createFromConfig example_env [] (example_cfg\<lparr>URLS := [''ftp://x'', ''http://b.example'']\<rparr>)
        ParamsCfg_zero
     = ([], [LogError ''Error while validating url (ftp://x): invalid url''],
        Some (Opaque ''invalid url''))"
    by (simp add: createFromConfig_def methodOptions_def dataOptions_def example_cfg_def
        example_env_def example_Validate_def HasPrefix_def ParamsCfg_zero_def)
  have b: "createFromConfig (example_env\<lparr>StoreTemplate_err := (\<lambda>fs tpl. Some (Opaque ''disk full''))\<rparr>) []
        (example_cfg\<lparr>URLS := [''http://a.example'']\<rparr>) ParamsCfg_zero
     = ([], [LogError ''Error while building scan template: disk full''],
        Some (Errorf_w ErrProcessRequestFile
                ''could not process request(s) file(http://a.example): disk full''))"
    by (simp add: createFromConfig_def methodOptions_def dataOptions_def example_cfg_def
        example_env_def example_Validate_def HasPrefix_def ParamsCfg_zero_def Alter_def
        NewTemplate_def StoreTemplate_def Errorf_paren_colon_def)
  have c: "createFromConfig example_env []
        (example_cfg\<lparr>URLS := [''http://a.example''], Headers := [''X-Test'']\<rparr>) ParamsCfg_zero
     = ([], [LogInfo ''HTTP headers inherited from config: X-Test''],
        Some (Errorf_w ErrInvalidHeader ''invalid header: X-Test''))"
    by (simp add: createFromConfig_def methodOptions_def dataOptions_def example_cfg_def
        example_env_def SplitN_colon_2_def Errorf_colon_def)
  have v: "valid_url (example_env\<lparr>StoreTemplate_err := (\<lambda>fs tpl. Some (Opaque ''disk full''))\<rparr>)
        ''http://a.example''"
    by (simp add: valid_url_def example_env_def example_Validate_def HasPrefix_def)
  have p: "Params ParamsCfg_zero = []" by (simp add: ParamsCfg_zero_def)
  from a b c v p example_valid_urls(1,2) show ?thesis by blast
qed

section \<open>Properties of the raw-request path\<close>

lemma consecutive_append:
  "consecutive i (xs @ ys) \<longleftrightarrow> consecutive i xs \<and> consecutive (i + int (length xs)) ys"
  by (induction xs arbitrary: i) (auto simp: algebra_simps)

lemma consecutive_take: "consecutive i ts \<Longrightarrow> consecutive i (take k ts)"
  by (induction ts arbitrary: i k) (auto simp: take_Cons split: nat.splits)

lemma consecutive_map_Idx:
  "consecutive i ts \<Longrightarrow> map Idx ts = map (\<lambda>k. i + int k) [0..<length ts]"
proof (induction ts arbitrary: i)
  case Nil
  then show ?case by simp
next
  case (Cons t ts)
  then have "map Idx ts = map (\<lambda>k. (i + 1) + int k) [0..<length ts]" by simp
  also have "\<dots> = map (\<lambda>k. i + int k) (map Suc [0..<length ts])"
    by (simp add: algebra_simps)
  also have "map Suc [0..<length ts] = [Suc 0..<Suc (length ts)]"
    by (simp only: map_Suc_upt)
  finally show ?case using Cons.prems by (simp add: upt_rec[of 0] del: upt_Suc)
qed

lemma altered_consecutive: "consecutive idx (altered env pCfg tpl idx bs)"
  by (induction bs arbitrary: idx) simp_all

lemma Alter_consecutive: "consecutive (Idx t) (Alter env pCfg t)"
  by (simp add: Alter_def altered_consecutive)

lemma TemplateFromRawBytes_consecutive:
  "TemplateFromRawBytes env tplIdx pCfg bs = Inr templates \<Longrightarrow> consecutive tplIdx templates"
  using Alter_consecutive[of "NewTemplate tplIdx req None" env pCfg for req]
  by (auto simp: TemplateFromRawBytes_def NewTemplate_def split: sum.splits)

lemma storeRaw_result:
  "storeRaw env path tpls tplIdx fs = (j, fs', e) \<Longrightarrow>
   \<exists>k. fs' = fs @ take k tpls \<and> (e = None \<longrightarrow> fs' = fs @ tpls \<and> j = tplIdx + int (length tpls))"
proof (induction tpls arbitrary: tplIdx fs)
  case Nil
  then show ?case by auto
next
  case (Cons t ts)
  show ?case
  proof (cases "StoreTemplate_err env fs t")
    case None
    with Cons.prems have "storeRaw env path ts (tplIdx + 1) (fs @ [t]) = (j, fs', e)"
      by (simp add: StoreTemplate_def)
    from Cons.IH[OF this] obtain k where
      k: "fs' = (fs @ [t]) @ take k ts"
         "e = None \<longrightarrow> fs' = (fs @ [t]) @ ts \<and> j = tplIdx + 1 + int (length ts)"
      by blast
    then have "fs' = fs @ take (Suc k) (t # ts)" by simp
    with k(2) show ?thesis by (intro exI[of _ "Suc k"]) auto
  next
    case (Some err)
    with Cons.prems have "fs' = fs" "e \<noteq> None"
      by (auto simp: StoreTemplate_def)
    then show ?thesis by (intro exI[of _ 0]) simp
  qed
qed

lemma rawFiles_consecutive:
  assumes "consecutive 0 new"
  shows "\<exists>new'. fst (rawFiles env pCfg paths (int (length new)) (fs0 @ new)) = fs0 @ new'
                 \<and> consecutive 0 new'"
  using assms
proof (induction paths arbitrary: new)
  case Nil
  then show ?case by auto
next
  case (Cons path paths)
  show ?case
  proof (cases "os_ReadFile env path")
    case (Inl err)
    with Cons.prems show ?thesis by auto
  next
    case (Inr bs)
    show ?thesis
    proof (cases "TemplateFromRawBytes env (int (length new)) pCfg bs")
      case (Inl err)
      with Inr Cons.prems show ?thesis by auto
    next
      case tpls: (Inr templates)
      obtain j fs' e where st:
        "storeRaw env path templates (int (length new)) (fs0 @ new) = (j, fs', e)"
        by (cases "storeRaw env path templates (int (length new)) (fs0 @ new)") auto
      from storeRaw_result[OF st] obtain k where
        k: "fs' = (fs0 @ new) @ take k templates"
           "e = None \<longrightarrow> fs' = (fs0 @ new) @ templates \<and> j = int (length new) + int (length templates)"
        by blast
      have c: "consecutive (int (length new)) templates"
        by (rule TemplateFromRawBytes_consecutive[OF tpls])
      show ?thesis
      proof (cases e)
        case None
        with k have fs': "fs' = fs0 @ (new @ templates)" and j: "j = int (length (new @ templates))"
          by simp_all
        have "consecutive 0 (new @ templates)"
          using Cons.prems c by (simp add: consecutive_append)
        from Cons.IH[OF this] obtain new' where
          "fst (rawFiles env pCfg paths (int (length (new @ templates))) (fs0 @ (new @ templates)))
             = fs0 @ new'" "consecutive 0 new'"
          by blast
        with Inr tpls st None fs' j show ?thesis by auto
      next
        case (Some err)
        have "consecutive 0 (new @ take k templates)"
          using Cons.prems c by (simp add: consecutive_append consecutive_take)
        with Inr tpls st Some k(1) show ?thesis by auto
      qed
    qed
  qed
qed

text \<open>
  C7. In a run over raw-request files the templates persisted are appended to the store
  in the order they are built, and their indices are 0, 1, 2, ... without a gap,
  whatever the number of files, the parameter configuration, and the point where the
  run may stop: the templates of a file start at the index after the last template of
  the file before.
\<close>

theorem createFromRawRequestFiles_dense_indices:
  "\<exists>new. fst (createFromRawRequestFiles env fs paths pCfg) = fs @ new
         \<and> map Idx new = map int [0..<length new]"
proof -
  from rawFiles_consecutive[of "[]" env pCfg paths fs] obtain new where
    new: "fst (rawFiles env pCfg paths 0 fs) = fs @ new" "consecutive 0 new"
    by auto
  from consecutive_map_Idx[OF new(2)] have "map Idx new = map int [0..<length new]"
    by simp
  with new(1) show ?thesis
    by (auto simp: createFromRawRequestFiles_def split: prod.splits)
qed

theorem createFromRawRequestFiles_dense_indices_witness:
  "map Idx (fst (createFromRawRequestFiles example_env [] [''first.req'', ''second.req'']
                   \<lparr>Params = [''id'', ''name'', ''lang''], Size = 2,
                    ParamsCfg.Method = ''POST'', Encoding = ''url''\<rparr>))
   = [0, 1, 2, 3]"
proof -
  have len: "length (fst (createFromRawRequestFiles example_env [] [''first.req'', ''second.req'']
                   \<lparr>Params = [''id'', ''name'', ''lang''], Size = 2,
                    ParamsCfg.Method = ''POST'', Encoding = ''url''\<rparr>)) = 4"
    by code_simp
  from createFromRawRequestFiles_dense_indices
         [of example_env "[]" "[''first.req'', ''second.req'']"
             "\<lparr>Params = [''id'', ''name'', ''lang''], Size = 2,
               ParamsCfg.Method = ''POST'', Encoding = ''url''\<rparr>"]
  obtain new where
    new: "fst (createFromRawRequestFiles example_env [] [''first.req'', ''second.req'']
                   \<lparr>Params = [''id'', ''name'', ''lang''], Size = 2,
                    ParamsCfg.Method = ''POST'', Encoding = ''url''\<rparr>) = [] @ new"
         "map Idx new = map int [0..<length new]"
    by blast
  from new(1) len have "length new = 4" by simp
  with new have "map Idx new = [0, 1, 2, 3]"
    by (simp add: upt_rec)
  with new(1) show ?thesis by simp
qed

section \<open>Properties of the scanner\<close>

lemma scan_tokens_too_long:
  assumes "CHR 0x0A \<notin> set (take MaxScanTokenSize data)" and "MaxScanTokenSize \<le> length data"
  shows "scan_tokens data = ([], True)"
proof -
  from assms(2) have "data \<noteq> []" by (auto simp: MaxScanTokenSize_def)
  with assms show ?thesis by (subst scan_tokens.simps) simp
qed

lemma scan_tokens_line:
  assumes "CHR 0x0A \<notin> set l" and "length l < MaxScanTokenSize"
  shows "scan_tokens (l @ CHR 0x0A # rest)
         = (dropCR l # fst (scan_tokens rest), snd (scan_tokens rest))"
proof -
  have tw: "takeWhile (\<lambda>c. c \<noteq> CHR 0x0A) (l @ CHR 0x0A # rest) = l"
    using assms(1) by (induction l) auto
  have dw: "dropWhile (\<lambda>c. c \<noteq> CHR 0x0A) (l @ CHR 0x0A # rest) = CHR 0x0A # rest"
    using assms(1) by (induction l) auto
  have "take MaxScanTokenSize (l @ CHR 0x0A # rest)
        = l @ take (MaxScanTokenSize - length l) (CHR 0x0A # rest)"
    using assms(2) by simp
  moreover have "take (MaxScanTokenSize - length l) (CHR 0x0A # rest)
        = CHR 0x0A # take (MaxScanTokenSize - length l - 1) rest"
    using assms(2) by (cases "MaxScanTokenSize - length l") auto
  ultimately have "CHR 0x0A \<in> set (take MaxScanTokenSize (l @ CHR 0x0A # rest))"
    by simp
  then show ?thesis
    by (subst scan_tokens.simps) (simp add: tw dw split: prod.splits)
qed

lemma scan_tokens_Nil: "scan_tokens [] = ([], False)"
  by (subst scan_tokens.simps) simp

lemma scan_tokens_file_lines:
  "\<not> snd (scan_tokens data) \<Longrightarrow> fst (scan_tokens data) = map dropCR (file_lines data)"
proof (induction data rule: scan_tokens.induct)
  case (1 data)
  show ?case
  proof (cases "data = []")
    case True
    then show ?thesis by (simp add: scan_tokens_Nil file_lines.simps)
  next
    case ne: False
    show ?thesis
    proof (cases "CHR 0x0A \<in> set (take MaxScanTokenSize data)")
      case True
      then have inset: "CHR 0x0A \<in> set data" by (meson in_set_takeD)
      obtain toks tl' where r: "scan_tokens (tl (dropWhile (\<lambda>c. c \<noteq> CHR 0x0A) data)) = (toks, tl')"
        by (cases "scan_tokens (tl (dropWhile (\<lambda>c. c \<noteq> CHR 0x0A) data))")
      have unf: "scan_tokens data = (dropCR (takeWhile (\<lambda>c. c \<noteq> CHR 0x0A) data) # toks, tl')"
        using ne True r by (subst scan_tokens.simps) simp
      with "1.prems" have "\<not> tl'" by simp
      with "1.IH"[OF ne True] r have "toks = map dropCR (file_lines (tl (dropWhile (\<lambda>c. c \<noteq> CHR 0x0A) data)))"
        by simp
      with unf ne inset show ?thesis
        by (subst file_lines.simps) simp
    next
      case False
      with "1.prems" ne have short: "\<not> MaxScanTokenSize \<le> length data"
        by (subst (asm) scan_tokens.simps) (simp split: if_splits)
      then have "take MaxScanTokenSize data = data" by simp
      with False have notin: "CHR 0x0A \<notin> set data" by simp
      have "scan_tokens data = ([dropCR data], False)"
        using ne False short by (subst scan_tokens.simps) simp
      with ne notin show ?thesis
        by (subst file_lines.simps) simp
    qed
  qed
qed

lemma scan_tokens_long_params:
  "scan_tokens (''id'' @ [CHR 0x0A] @ replicate 70000 (CHR ''a'') @ [CHR 0x0A] @ ''name'' @ [CHR 0x0A])
   = ([''id''], True)"
proof -
  have long: "scan_tokens (replicate 70000 (CHR ''a'') @ [CHR 0x0A] @ ''name'' @ [CHR 0x0A])
              = ([], True)"
    by (rule scan_tokens_too_long) (simp_all add: MaxScanTokenSize_def)
  have "scan_tokens (''id'' @ CHR 0x0A # (replicate 70000 (CHR ''a'') @ [CHR 0x0A] @ ''name'' @ [CHR 0x0A]))
        = (dropCR ''id'' # fst (scan_tokens (replicate 70000 (CHR ''a'') @ [CHR 0x0A] @ ''name'' @ [CHR 0x0A])),
           snd (scan_tokens (replicate 70000 (CHR ''a'') @ [CHR 0x0A] @ ''name'' @ [CHR 0x0A])))"
    by (rule scan_tokens_line) (simp_all add: MaxScanTokenSize_def)
  with long show ?thesis by (simp add: dropCR_def)
qed

lemma TrimSpace_id: "TrimSpace ''id'' = ''id''"
  by code_simp

lemma Scanner_run_long_urls:
  "Scanner_run \<lparr>delivered = replicate 70000 (CHR ''a''), read_err = None\<rparr> = ([], Some ErrTooLong)"
proof -
  have "scan_tokens (replicate 70000 (CHR ''a'')) = ([], True)"
    by (rule scan_tokens_too_long) (simp_all add: MaxScanTokenSize_def)
  then show ?thesis by (simp add: Scanner_run_def)
qed

lemma Scanner_run_example_urls:
  "Scanner_run \<lparr>delivered = ''http://a.example'' @ [CHR 0x0A] @ ''not a url'' @ [CHR 0x0A],
                read_err = None\<rparr>
   = ([''http://a.example'', ''not a url''], None)"
proof -
  have 2: "scan_tokens (''not a url'' @ CHR 0x0A # []) = (dropCR ''not a url'' # fst (scan_tokens []), snd (scan_tokens []))"
    by (rule scan_tokens_line) (simp_all add: MaxScanTokenSize_def)
  have 1: "scan_tokens (''http://a.example'' @ CHR 0x0A # (''not a url'' @ CHR 0x0A # []))
           = (dropCR ''http://a.example'' # fst (scan_tokens (''not a url'' @ CHR 0x0A # [])),
              snd (scan_tokens (''not a url'' @ CHR 0x0A # [])))"
    by (rule scan_tokens_line) (simp_all add: MaxScanTokenSize_def)
  have "scan_tokens (''http://a.example'' @ [CHR 0x0A] @ ''not a url'' @ [CHR 0x0A])
        = ([''http://a.example'', ''not a url''], False)"
    using 1 2 by (simp add: scan_tokens_Nil dropCR_def)
  then show ?thesis by (simp add: Scanner_run_def)
qed

section \<open>The branches of \<^verbatim>\<open>createTemplates\<close>\<close>

lemma createTemplates_requests_file:
  "RequestsFile cfg \<noteq> [] \<Longrightarrow>
   createTemplates env fs cfg pCfg =
     logged [LogInfo ''Preparing templates for scan'',
             LogInfo (''Scan templates from requests file: '' @ RequestsFile cfg)]
       (createFromRequestsFile env fs (RequestsFile cfg) pCfg)"
  by (cases "createFromRequestsFile env fs (RequestsFile cfg) pCfg")
     (simp add: createTemplates_def)

lemma createTemplates_raw_requests:
  "RequestsFile cfg = [] \<Longrightarrow> RawRequests cfg \<noteq> [] \<Longrightarrow>
   createTemplates env fs cfg pCfg =
     logged [LogInfo ''Preparing templates for scan'',
             LogInfo (''Scan templates from raw requests: '' @ format_MultiValue env (RawRequests cfg))]
       (createFromRawRequestFiles env fs (RawRequests cfg) pCfg)"
  by (cases "createFromRawRequestFiles env fs (RawRequests cfg) pCfg")
     (simp add: createTemplates_def)

lemma createTemplates_urls_file:
  "RequestsFile cfg = [] \<Longrightarrow> RawRequests cfg = [] \<Longrightarrow> UrlsFile cfg \<noteq> [] \<Longrightarrow>
   createTemplates env fs cfg pCfg =
     (case updateConfigWithURLS env cfg of
        (cfg', lg, Some err) \<Rightarrow>
          (fs,
           [LogInfo ''Preparing templates for scan'', LogInfo ''Updating config with urls file'']
           @ lg @ [LogError (''Error while updating config with urls file: '' @ Error_text err)],
           Some err)
      | (cfg', lg, None) \<Rightarrow>
          logged ([LogInfo ''Preparing templates for scan'',
                   LogInfo ''Updating config with urls file'']
                  @ lg @ [LogInfo ''Scan templates from config''])
            (createFromConfig env fs cfg' pCfg))"
proof -
  assume a: "RequestsFile cfg = []" "RawRequests cfg = []" "UrlsFile cfg \<noteq> []"
  obtain c lg e where u: "updateConfigWithURLS env cfg = (c, lg, e)"
    by (cases "updateConfigWithURLS env cfg")
  show ?thesis
  proof (cases e)
    case None
    with a u show ?thesis
      by (cases "createFromConfig env fs c pCfg") (simp add: createTemplates_def)
  next
    case (Some err)
    with a u show ?thesis by (simp add: createTemplates_def)
  qed
qed

lemma createTemplates_inline:
  "RequestsFile cfg = [] \<Longrightarrow> RawRequests cfg = [] \<Longrightarrow> UrlsFile cfg = [] \<Longrightarrow>
   createTemplates env fs cfg pCfg =
     logged [LogInfo ''Preparing templates for scan'', LogInfo ''Scan templates from config'']
       (createFromConfig env fs cfg pCfg)"
  by (cases "createFromConfig env fs cfg pCfg") (simp add: createTemplates_def)

section \<open>Properties of the URLs file\<close>

lemma urlsLines_eq:
  "urlsLines env urlsFile lines urls = (urls @ survivors env lines, warnings env urlsFile lines)"
proof (induction lines arbitrary: urls)
  case Nil
  then show ?case by (simp add: survivors_def warnings_def)
next
  case (Cons l ls)
  obtain line e where v: "url_Validate env l = (line, e)"
    by (cases "url_Validate env l")
  show ?case
  proof (cases e)
    case None
    then have "valid_url env l" using v by (simp add: valid_url_def)
    with v None Cons[of "urls @ [line]"] show ?thesis
      by (simp add: survivors_def warnings_def)
  next
    case (Some err)
    then have "\<not> valid_url env l" using v by (simp add: valid_url_def)
    with v Some Cons[of urls] show ?thesis
      by (simp add: survivors_def warnings_def skip_warning_def)
  qed
qed

lemma updateConfigWithURLS_opened:
  "os_Open env (UrlsFile cfg) = Inr file \<Longrightarrow>
   updateConfigWithURLS env cfg =
     (cfg\<lparr>URLS := URLS cfg @ survivors env (fst (Scanner_run file))\<rparr>,
      warnings env (UrlsFile cfg) (fst (Scanner_run file)),
      snd (Scanner_run file))"
  by (simp add: updateConfigWithURLS_def urlsLines_eq split: prod.splits)

lemma updateConfigWithURLS_PathError:
  "os_Open env (UrlsFile cfg) = Inl (PathError op path e) \<Longrightarrow>
   updateConfigWithURLS env cfg =
     (cfg, [], Some (Errorf_paren_colon ErrProcessUrlsFile (UrlsFile cfg) (Error_text e)))"
  by (simp add: updateConfigWithURLS_def)

lemma updateConfigWithURLS_other_error:
  "os_Open env (UrlsFile cfg) = Inl err \<Longrightarrow> errors_As_PathError err = None \<Longrightarrow>
   updateConfigWithURLS env cfg =
     (cfg, [], Some (Errorf_paren_colon ErrProcessUrlsFile (OutPath cfg) (Error_text err)))"
  by (simp add: updateConfigWithURLS_def)

text \<open>
  C4. When the URLs file is the source in use (no captured-requests file and no
  raw-request files are configured) and it opens, every line the scanner delivers that
  fails URL validation is skipped with one warning and left out, and every line that
  passes is appended to the inline-config URL list as \<^verbatim>\<open>url.Validate\<close> left it. No
  invalid line makes the run abort: the only error \<^verbatim>\<open>updateConfigWithURLS\<close> returns for
  an open file is that of the scanner. When the scanner reads the file to its end
  without error, the inline-config path then runs on the merged list; when it stops with
  an error (a read error, or a line longer than its buffer), the run aborts with that
  error.
\<close>

theorem urls_file_lines_merged:
  assumes "RequestsFile cfg = []" and "RawRequests cfg = []" and "UrlsFile cfg \<noteq> []"
      and "os_Open env (UrlsFile cfg) = Inr file"
      and "Scanner_run file = (lines, scanner_Err)"
  shows "updateConfigWithURLS env cfg =
           (cfg\<lparr>URLS := URLS cfg @ survivors env lines\<rparr>, warnings env (UrlsFile cfg) lines,
            scanner_Err)
         \<and> (scanner_Err = None \<longrightarrow>
              createTemplates env fs cfg pCfg =
                logged ([LogInfo ''Preparing templates for scan'',
                         LogInfo ''Updating config with urls file'']
                        @ warnings env (UrlsFile cfg) lines
                        @ [LogInfo ''Scan templates from config''])
                  (createFromConfig env fs (cfg\<lparr>URLS := URLS cfg @ survivors env lines\<rparr>) pCfg))
         \<and> (\<forall>err. scanner_Err = Some err \<longrightarrow>
              createTemplates env fs cfg pCfg =
                (fs,
                 [LogInfo ''Preparing templates for scan'',
                  LogInfo ''Updating config with urls file'']
                 @ warnings env (UrlsFile cfg) lines
                 @ [LogError (''Error while updating config with urls file: '' @ Error_text err)],
                 Some err))
         \<and> length (survivors env lines) = length (filter (valid_url env) lines)
         \<and> length (warnings env (UrlsFile cfg) lines)
             = length (filter (\<lambda>l. \<not> valid_url env l) lines)"
proof -
  have upd: "updateConfigWithURLS env cfg =
           (cfg\<lparr>URLS := URLS cfg @ survivors env lines\<rparr>, warnings env (UrlsFile cfg) lines,
            scanner_Err)"
    using updateConfigWithURLS_opened[OF assms(4)] assms(5) by simp
  have run: "createTemplates env fs cfg pCfg =
             logged ([LogInfo ''Preparing templates for scan'',
                      LogInfo ''Updating config with urls file'']
                     @ warnings env (UrlsFile cfg) lines
                     @ [LogInfo ''Scan templates from config''])
               (createFromConfig env fs (cfg\<lparr>URLS := URLS cfg @ survivors env lines\<rparr>) pCfg)"
    if "scanner_Err = None"
    using that upd createTemplates_urls_file[OF assms(1-3), of env fs pCfg] by simp
  have abort: "createTemplates env fs cfg pCfg =
                (fs,
                 [LogInfo ''Preparing templates for scan'',
                  LogInfo ''Updating config with urls file'']
                 @ warnings env (UrlsFile cfg) lines
                 @ [LogError (''Error while updating config with urls file: '' @ Error_text err)],
                 Some err)"
    if "scanner_Err = Some err" for err
    using that upd createTemplates_urls_file[OF assms(1-3), of env fs pCfg] by simp
  have counts: "length (survivors env lines) = length (filter (valid_url env) lines)"
               "length (warnings env (UrlsFile cfg) lines)
                 = length (filter (\<lambda>l. \<not> valid_url env l) lines)"
    by (simp_all add: survivors_def warnings_def)
  from upd run abort counts show ?thesis by blast
qed

theorem urls_file_lines_merged_witness:
  "updateConfigWithURLS example_env (example_cfg\<lparr>UrlsFile := ''urls.txt''\<rparr>)
     = (example_cfg\<lparr>UrlsFile := ''urls.txt'', URLS := [''http://a.example'']\<rparr>,
        [LogWarn ''Skipping url(s) file (urls.txt) line (not a url) - not a valid url: invalid url''],
        None)
   \<and> createTemplates example_env [] (example_cfg\<lparr>UrlsFile := ''urls.txt''\<rparr>) ParamsCfg_zero
     = ([\<lparr>Idx = 0,
          Req = \<lparr>req_method = ''GET'', req_target = ''http://a.example'',
                  req_headers = [], req_body = []\<rparr>,
          Resp = None\<rparr>],
        [LogInfo ''Preparing templates for scan'',
         LogInfo ''Updating config with urls file'',
         LogWarn ''Skipping url(s) file (urls.txt) line (not a url) - not a valid url: invalid url'',
         LogInfo ''Scan templates from config''],
        None)"
proof -
  have h1: "RequestsFile (example_cfg\<lparr>UrlsFile := ''urls.txt''\<rparr>) = []"
    and h2: "RawRequests (example_cfg\<lparr>UrlsFile := ''urls.txt''\<rparr>) = []"
    and h3: "UrlsFile (example_cfg\<lparr>UrlsFile := ''urls.txt''\<rparr>) \<noteq> []"
    by (simp_all add: example_cfg_def)
  have h4: "os_Open example_env (UrlsFile (example_cfg\<lparr>UrlsFile := ''urls.txt''\<rparr>))
            = Inr \<lparr>delivered = ''http://a.example'' @ [CHR 0x0A] @ ''not a url'' @ [CHR 0x0A],
                    read_err = None\<rparr>"
    by (simp add: example_env_def example_Open_def)
  have s: "survivors example_env [''http://a.example'', ''not a url''] = [''http://a.example'']"
    by (simp add: survivors_def example_valid_urls example_Validate_fst)
  have w: "warnings example_env ''urls.txt'' [''http://a.example'', ''not a url'']
           = [LogWarn ''Skipping url(s) file (urls.txt) line (not a url) - not a valid url: invalid url'']"
    by (simp add: warnings_def example_valid_urls skip_warning_def)
       (simp add: example_env_def example_Validate_def HasPrefix_def)
  have c: "createFromConfig example_env []
             (example_cfg\<lparr>UrlsFile := ''urls.txt'', URLS := [''http://a.example'']\<rparr>) ParamsCfg_zero
           = createFromConfig example_env [] (example_cfg\<lparr>URLS := [''http://a.example'']\<rparr>) ParamsCfg_zero"
    by (simp add: createFromConfig_eq configOptions_def configLog_def methodOptions_def
          dataOptions_def example_cfg_def)
  have u: "URLS (example_cfg\<lparr>UrlsFile := ''urls.txt''\<rparr>) = []"
    by (simp add: example_cfg_def)
  from urls_file_lines_merged[OF h1 h2 h3 h4 Scanner_run_example_urls, of "[]" ParamsCfg_zero]
  show ?thesis
    by (simp add: s w c u example_template_a)
qed

text \<open>A URLs file that opens and is read without error, and whose one line is longer than
  the scanner's buffer: the line is not skipped with a warning, the run aborts, and the
  inline-config path does not run. And a readable URLs file next to a configured
  captured-requests file: it is not opened, and none of its lines reaches the URL list.\<close>

theorem urls_file_long_line_aborts:
  "os_Open example_env ''long-urls.txt''
     = Inr \<lparr>delivered = replicate 70000 (CHR ''a''), read_err = None\<rparr>
   \<and> createTemplates example_env [] (example_cfg\<lparr>UrlsFile := ''long-urls.txt''\<rparr>) ParamsCfg_zero
     = ([],
        [LogInfo ''Preparing templates for scan'',
         LogInfo ''Updating config with urls file'',
         LogError ''Error while updating config with urls file: bufio.Scanner: token too long''],
        Some ErrTooLong)
   \<and> os_Open example_env ''urls.txt''
     = Inr \<lparr>delivered = ''http://a.example'' @ [CHR 0x0A] @ ''not a url'' @ [CHR 0x0A],
             read_err = None\<rparr>
   \<and> createTemplates example_env []
       (example_cfg\<lparr>RequestsFile := ''first.req'', UrlsFile := ''urls.txt''\<rparr>) ParamsCfg_zero
     = ([], [LogInfo ''Preparing templates for scan'',
             LogInfo ''Scan templates from requests file: first.req''], None)"
proof -
  have o: "os_Open example_env ''long-urls.txt''
     = Inr \<lparr>delivered = replicate 70000 (CHR ''a''), read_err = None\<rparr>"
    by (simp add: example_env_def example_Open_def)
  have u: "updateConfigWithURLS example_env (example_cfg\<lparr>UrlsFile := ''long-urls.txt''\<rparr>)
           = (example_cfg\<lparr>UrlsFile := ''long-urls.txt'',
                           URLS := URLS (example_cfg\<lparr>UrlsFile := ''long-urls.txt''\<rparr>)
                                   @ survivors example_env []\<rparr>,
              warnings example_env ''long-urls.txt'' [], Some ErrTooLong)"
    using updateConfigWithURLS_opened[of example_env "example_cfg\<lparr>UrlsFile := ''long-urls.txt''\<rparr>"]
          o Scanner_run_long_urls
    by simp
  have long: "createTemplates example_env [] (example_cfg\<lparr>UrlsFile := ''long-urls.txt''\<rparr>) ParamsCfg_zero
     = ([],
        [LogInfo ''Preparing templates for scan'',
         LogInfo ''Updating config with urls file'',
         LogError ''Error while updating config with urls file: bufio.Scanner: token too long''],
        Some ErrTooLong)"
    using u by (simp add: createTemplates_def example_cfg_def warnings_def)
  have o2: "os_Open example_env ''urls.txt''
     = Inr \<lparr>delivered = ''http://a.example'' @ [CHR 0x0A] @ ''not a url'' @ [CHR 0x0A],
             read_err = None\<rparr>"
    by (simp add: example_env_def example_Open_def)
  have ignored: "createTemplates example_env []
       (example_cfg\<lparr>RequestsFile := ''first.req'', UrlsFile := ''urls.txt''\<rparr>) ParamsCfg_zero
     = ([], [LogInfo ''Preparing templates for scan'',
             LogInfo ''Scan templates from requests file: first.req''], None)"
    using createTemplates_requests_file
            [of "example_cfg\<lparr>RequestsFile := ''first.req'', UrlsFile := ''urls.txt''\<rparr>"
                example_env "[]" ParamsCfg_zero]
    by (simp add: createFromRequestsFile_def example_env_def example_ReadFile_def)
  from o long o2 ignored show ?thesis by blast
qed

text \<open>
  C8. When \<^verbatim>\<open>os.Open\<close> fails on the URLs file, \<^verbatim>\<open>updateConfigWithURLS\<close> returns an
  error that wraps \<open>ErrProcessUrlsFile\<close> and carries the path of the URLs file and the text
  of the underlying failure (\<open>updateConfigWithURLS_PathError\<close>; were the failure not a
  \<^verbatim>\<open>*os.PathError\<close>, the path in the message would be \<^verbatim>\<open>cfg.OutPath\<close>,
  \<open>updateConfigWithURLS_other_error\<close>). When the file opens and reading it fails, as for
  a path that names a directory, the error of the scanner is returned as it is: the run
  aborts with an error that does not wrap \<open>ErrProcessUrlsFile\<close>.
\<close>

theorem urls_file_read_failure_unwrapped:
  "os_Open example_env ''/tmp''
     = Inr \<lparr>delivered = [],
             read_err = Some (PathError ''read'' ''/tmp'' (Opaque ''is a directory''))\<rparr>
   \<and> PrepareTemplates example_env [] (example_cfg\<lparr>UrlsFile := ''/tmp''\<rparr>)
     = ([],
        [LogInfo ''Preparing templates for scan'',
         LogInfo ''Updating config with urls file'',
         LogError ''Error while updating config with urls file: read /tmp: is a directory''],
        Some (PathError ''read'' ''/tmp'' (Opaque ''is a directory'')))
   \<and> \<not> errors_Is (PathError ''read'' ''/tmp'' (Opaque ''is a directory'')) ErrProcessUrlsFile"
proof -
  have o: "os_Open example_env ''/tmp''
     = Inr \<lparr>delivered = [],
             read_err = Some (PathError ''read'' ''/tmp'' (Opaque ''is a directory''))\<rparr>"
    by (simp add: example_env_def example_Open_def)
  have s: "Scanner_run \<lparr>delivered = [],
             read_err = Some (PathError ''read'' ''/tmp'' (Opaque ''is a directory''))\<rparr>
           = ([], Some (PathError ''read'' ''/tmp'' (Opaque ''is a directory'')))"
    by (simp add: Scanner_run_def scan_tokens_Nil)
  have u: "updateConfigWithURLS example_env (example_cfg\<lparr>UrlsFile := ''/tmp''\<rparr>)
           = (example_cfg\<lparr>UrlsFile := ''/tmp'',
                           URLS := URLS (example_cfg\<lparr>UrlsFile := ''/tmp''\<rparr>)
                                   @ survivors example_env []\<rparr>,
              warnings example_env ''/tmp'' [],
              Some (PathError ''read'' ''/tmp'' (Opaque ''is a directory'')))"
    using updateConfigWithURLS_opened[of example_env "example_cfg\<lparr>UrlsFile := ''/tmp''\<rparr>"] o s
    by simp
  have c: "createTemplates example_env [] (example_cfg\<lparr>UrlsFile := ''/tmp''\<rparr>) ParamsCfg_zero
     = ([],
        [LogInfo ''Preparing templates for scan'',
         LogInfo ''Updating config with urls file'',
         LogError ''Error while updating config with urls file: read /tmp: is a directory''],
        Some (PathError ''read'' ''/tmp'' (Opaque ''is a directory'')))"
    using u by (simp add: createTemplates_def example_cfg_def warnings_def)
  have p: "PrepareTemplates example_env [] (example_cfg\<lparr>UrlsFile := ''/tmp''\<rparr>)
           = createTemplates example_env [] (example_cfg\<lparr>UrlsFile := ''/tmp''\<rparr>) ParamsCfg_zero"
    by (simp add: PrepareTemplates_def example_cfg_def)
  show ?thesis using o c p by simp
qed

section \<open>Properties of the source selection\<close>

text \<open>
  C1. The source of the templates is chosen in a fixed order. A configured
  captured-requests file is used, whatever else is configured. Otherwise configured
  raw-request files are used, whatever else is configured. Otherwise a configured URLs
  file is processed: when it opens and the scanner reads it to its end without error,
  the lines that pass validation are appended to the inline-config URL list and the
  inline-config path runs on the merged list; when it does not, the run aborts with that
  error and the inline-config path does not run. Otherwise the inline-config path runs
  on the configuration as it is.
\<close>

theorem createTemplates_source_priority:
  "(RequestsFile cfg \<noteq> [] \<longrightarrow>
      createTemplates env fs cfg pCfg =
        logged [LogInfo ''Preparing templates for scan'',
                LogInfo (''Scan templates from requests file: '' @ RequestsFile cfg)]
          (createFromRequestsFile env fs (RequestsFile cfg) pCfg)
      \<and> (\<forall>raw urlsFile urls m d h.
            createTemplates env fs
              (cfg\<lparr>RawRequests := raw, UrlsFile := urlsFile, URLS := urls,
                   Method := m, Data := d, Headers := h\<rparr>) pCfg
            = createTemplates env fs cfg pCfg))
   \<and> (RequestsFile cfg = [] \<and> RawRequests cfg \<noteq> [] \<longrightarrow>
      createTemplates env fs cfg pCfg =
        logged [LogInfo ''Preparing templates for scan'',
                LogInfo (''Scan templates from raw requests: ''
                         @ format_MultiValue env (RawRequests cfg))]
          (createFromRawRequestFiles env fs (RawRequests cfg) pCfg)
      \<and> (\<forall>urlsFile urls m d h.
            createTemplates env fs
              (cfg\<lparr>UrlsFile := urlsFile, URLS := urls,
                   Method := m, Data := d, Headers := h\<rparr>) pCfg
            = createTemplates env fs cfg pCfg))
   \<and> (RequestsFile cfg = [] \<and> RawRequests cfg = [] \<and> UrlsFile cfg \<noteq> [] \<longrightarrow>
      (\<forall>f lines.
         os_Open env (UrlsFile cfg) = Inr f \<and> Scanner_run f = (lines, None) \<longrightarrow>
         createTemplates env fs cfg pCfg =
           logged ([LogInfo ''Preparing templates for scan'',
                    LogInfo ''Updating config with urls file'']
                   @ warnings env (UrlsFile cfg) lines
                   @ [LogInfo ''Scan templates from config''])
             (createFromConfig env fs (cfg\<lparr>URLS := URLS cfg @ survivors env lines\<rparr>) pCfg))
      \<and> (\<forall>f lines err.
            os_Open env (UrlsFile cfg) = Inr f \<and> Scanner_run f = (lines, Some err) \<longrightarrow>
            createTemplates env fs cfg pCfg =
              (fs,
               [LogInfo ''Preparing templates for scan'',
                LogInfo ''Updating config with urls file'']
               @ warnings env (UrlsFile cfg) lines
               @ [LogError (''Error while updating config with urls file: '' @ Error_text err)],
               Some err))
      \<and> (\<forall>e. os_Open env (UrlsFile cfg) = Inl e \<longrightarrow>
            (\<exists>err. createTemplates env fs cfg pCfg =
                     (fs,
                      [LogInfo ''Preparing templates for scan'',
                       LogInfo ''Updating config with urls file'',
                       LogError (''Error while updating config with urls file: ''
                                 @ Error_text err)],
                      Some err)
                   \<and> errors_Is err ErrProcessUrlsFile)))
   \<and> (RequestsFile cfg = [] \<and> RawRequests cfg = [] \<and> UrlsFile cfg = [] \<longrightarrow>
      createTemplates env fs cfg pCfg =
        logged [LogInfo ''Preparing templates for scan'', LogInfo ''Scan templates from config'']
          (createFromConfig env fs cfg pCfg))"
proof -
  have indep1: "createTemplates env fs
              (cfg\<lparr>RawRequests := raw, UrlsFile := urlsFile, URLS := urls,
                   Method := m, Data := d, Headers := h\<rparr>) pCfg
            = createTemplates env fs cfg pCfg"
    if "RequestsFile cfg \<noteq> []" for raw urlsFile urls m d h
    using that
      createTemplates_requests_file
        [of "cfg\<lparr>RawRequests := raw, UrlsFile := urlsFile, URLS := urls,
                 Method := m, Data := d, Headers := h\<rparr>" env fs pCfg]
      createTemplates_requests_file[of cfg env fs pCfg]
    by simp
  have indep2: "createTemplates env fs
              (cfg\<lparr>UrlsFile := urlsFile, URLS := urls,
                   Method := m, Data := d, Headers := h\<rparr>) pCfg
            = createTemplates env fs cfg pCfg"
    if "RequestsFile cfg = []" "RawRequests cfg \<noteq> []" for urlsFile urls m d h
    using that
      createTemplates_raw_requests
        [of "cfg\<lparr>UrlsFile := urlsFile, URLS := urls,
                 Method := m, Data := d, Headers := h\<rparr>" env fs pCfg]
      createTemplates_raw_requests[of cfg env fs pCfg]
    by simp
  have merged: "createTemplates env fs cfg pCfg =
           logged ([LogInfo ''Preparing templates for scan'',
                    LogInfo ''Updating config with urls file'']
                   @ warnings env (UrlsFile cfg) lines
                   @ [LogInfo ''Scan templates from config''])
             (createFromConfig env fs (cfg\<lparr>URLS := URLS cfg @ survivors env lines\<rparr>) pCfg)"
    if "RequestsFile cfg = []" "RawRequests cfg = []" "UrlsFile cfg \<noteq> []"
       "os_Open env (UrlsFile cfg) = Inr f" "Scanner_run f = (lines, None)" for f lines
    using that updateConfigWithURLS_opened[OF that(4)] createTemplates_urls_file[OF that(1-3), of env fs pCfg]
    by simp
  have scan_failed: "createTemplates env fs cfg pCfg =
              (fs,
               [LogInfo ''Preparing templates for scan'',
                LogInfo ''Updating config with urls file'']
               @ warnings env (UrlsFile cfg) lines
               @ [LogError (''Error while updating config with urls file: '' @ Error_text err)],
               Some err)"
    if "RequestsFile cfg = []" "RawRequests cfg = []" "UrlsFile cfg \<noteq> []"
       "os_Open env (UrlsFile cfg) = Inr f" "Scanner_run f = (lines, Some err)" for f lines err
    using that updateConfigWithURLS_opened[OF that(4)] createTemplates_urls_file[OF that(1-3), of env fs pCfg]
    by simp
  have open_failed: "\<exists>err. createTemplates env fs cfg pCfg =
                     (fs,
                      [LogInfo ''Preparing templates for scan'',
                       LogInfo ''Updating config with urls file'',
                       LogError (''Error while updating config with urls file: ''
                                 @ Error_text err)],
                      Some err)
                   \<and> errors_Is err ErrProcessUrlsFile"
    if "RequestsFile cfg = []" "RawRequests cfg = []" "UrlsFile cfg \<noteq> []"
       "os_Open env (UrlsFile cfg) = Inl e" for e
  proof -
    from that(4) obtain a b where
      u: "updateConfigWithURLS env cfg = (cfg, [], Some (Errorf_paren_colon ErrProcessUrlsFile a b))"
      by (cases "errors_As_PathError e") (auto simp: updateConfigWithURLS_def)
    have "errors_Is (Errorf_paren_colon ErrProcessUrlsFile a b) ErrProcessUrlsFile"
      by (simp add: Errorf_paren_colon_def)
    with u createTemplates_urls_file[OF that(1-3), of env fs pCfg] show ?thesis
      by simp
  qed
  from createTemplates_requests_file[of cfg env fs pCfg] indep1
       createTemplates_raw_requests[of cfg env fs pCfg] indep2 merged scan_failed open_failed
       createTemplates_inline[of cfg env fs pCfg]
  show ?thesis by blast
qed

theorem createTemplates_source_priority_witness:
  "createTemplates example_env []
     (example_cfg\<lparr>RequestsFile := ''first.req'', RawRequests := [''second.req''],
                  UrlsFile := ''urls.txt'', URLS := [''http://a.example'']\<rparr>) ParamsCfg_zero
     = ([], [LogInfo ''Preparing templates for scan'',
             LogInfo ''Scan templates from requests file: first.req''], None)
   \<and> createTemplates example_env []
     (example_cfg\<lparr>RawRequests := [''second.req''],
                  UrlsFile := ''urls.txt'', URLS := [''http://a.example'']\<rparr>) ParamsCfg_zero
     = ([\<lparr>Idx = 0,
          Req = \<lparr>req_method = ''GET'', req_target = ''GET /b HTTP/1.1'',
                  req_headers = [], req_body = []\<rparr>,
          Resp = None\<rparr>],
        [LogInfo ''Preparing templates for scan'',
         LogInfo ''Scan templates from raw requests: second.req''], None)
   \<and> createTemplates example_env [] (example_cfg\<lparr>UrlsFile := ''urls.txt''\<rparr>) ParamsCfg_zero
     = ([\<lparr>Idx = 0,
          Req = \<lparr>req_method = ''GET'', req_target = ''http://a.example'',
                  req_headers = [], req_body = []\<rparr>,
          Resp = None\<rparr>],
        [LogInfo ''Preparing templates for scan'',
         LogInfo ''Updating config with urls file'',
         LogWarn ''Skipping url(s) file (urls.txt) line (not a url) - not a valid url: invalid url'',
         LogInfo ''Scan templates from config''],
        None)
   \<and> createTemplates example_env [] (example_cfg\<lparr>URLS := [''http://a.example'']\<rparr>) ParamsCfg_zero
     = ([\<lparr>Idx = 0,
          Req = \<lparr>req_method = ''GET'', req_target = ''http://a.example'',
                  req_headers = [], req_body = []\<rparr>,
          Resp = None\<rparr>],
        [LogInfo ''Preparing templates for scan'', LogInfo ''Scan templates from config''],
        None)"
proof -
  have ha: "RequestsFile (example_cfg\<lparr>RequestsFile := ''first.req'', RawRequests := [''second.req''],
                  UrlsFile := ''urls.txt'', URLS := [''http://a.example'']\<rparr>) = ''first.req''"
    by simp
  from createTemplates_source_priority
            [of "example_cfg\<lparr>RequestsFile := ''first.req'', RawRequests := [''second.req''],
                  UrlsFile := ''urls.txt'', URLS := [''http://a.example'']\<rparr>"
                example_env "[]" ParamsCfg_zero] ha
  have "createTemplates example_env []
     (example_cfg\<lparr>RequestsFile := ''first.req'', RawRequests := [''second.req''],
                  UrlsFile := ''urls.txt'', URLS := [''http://a.example'']\<rparr>) ParamsCfg_zero
     = logged [LogInfo ''Preparing templates for scan'',
               LogInfo (''Scan templates from requests file: '' @ ''first.req'')]
         (createFromRequestsFile example_env [] ''first.req'' ParamsCfg_zero)"
    by simp
  then have a: "createTemplates example_env []
     (example_cfg\<lparr>RequestsFile := ''first.req'', RawRequests := [''second.req''],
                  UrlsFile := ''urls.txt'', URLS := [''http://a.example'']\<rparr>) ParamsCfg_zero
     = ([], [LogInfo ''Preparing templates for scan'',
             LogInfo ''Scan templates from requests file: first.req''], None)"
    by (simp add: createFromRequestsFile_def example_env_def example_ReadFile_def)
  have hb: "RequestsFile (example_cfg\<lparr>RawRequests := [''second.req''],
                  UrlsFile := ''urls.txt'', URLS := [''http://a.example'']\<rparr>) = []"
           "RawRequests (example_cfg\<lparr>RawRequests := [''second.req''],
                  UrlsFile := ''urls.txt'', URLS := [''http://a.example'']\<rparr>) = [''second.req'']"
    by (simp_all add: example_cfg_def)
  from createTemplates_source_priority
            [of "example_cfg\<lparr>RawRequests := [''second.req''],
                  UrlsFile := ''urls.txt'', URLS := [''http://a.example'']\<rparr>"
                example_env "[]" ParamsCfg_zero] hb
  have "createTemplates example_env []
     (example_cfg\<lparr>RawRequests := [''second.req''],
                  UrlsFile := ''urls.txt'', URLS := [''http://a.example'']\<rparr>) ParamsCfg_zero
     = logged [LogInfo ''Preparing templates for scan'',
               LogInfo (''Scan templates from raw requests: ''
                        @ format_MultiValue example_env [''second.req''])]
         (createFromRawRequestFiles example_env [] [''second.req''] ParamsCfg_zero)"
    by simp
  then have b: "createTemplates example_env []
     (example_cfg\<lparr>RawRequests := [''second.req''],
                  UrlsFile := ''urls.txt'', URLS := [''http://a.example'']\<rparr>) ParamsCfg_zero
     = ([\<lparr>Idx = 0,
          Req = \<lparr>req_method = ''GET'', req_target = ''GET /b HTTP/1.1'',
                  req_headers = [], req_body = []\<rparr>,
          Resp = None\<rparr>],
        [LogInfo ''Preparing templates for scan'',
         LogInfo ''Scan templates from raw requests: second.req''], None)"
    by (simp add: createFromRawRequestFiles_def TemplateFromRawBytes_def Alter_def
          NewTemplate_def StoreTemplate_def ParamsCfg_zero_def example_env_def
          example_ReadFile_def)
  have hc: "RequestsFile (example_cfg\<lparr>UrlsFile := ''urls.txt''\<rparr>) = []"
           "RawRequests (example_cfg\<lparr>UrlsFile := ''urls.txt''\<rparr>) = []"
           "UrlsFile (example_cfg\<lparr>UrlsFile := ''urls.txt''\<rparr>) \<noteq> []"
           "URLS (example_cfg\<lparr>UrlsFile := ''urls.txt''\<rparr>) = []"
    by (simp_all add: example_cfg_def)
  have h4: "os_Open example_env (UrlsFile (example_cfg\<lparr>UrlsFile := ''urls.txt''\<rparr>))
            = Inr \<lparr>delivered = ''http://a.example'' @ [CHR 0x0A] @ ''not a url'' @ [CHR 0x0A],
                    read_err = None\<rparr>"
    by (simp add: example_env_def example_Open_def)
  have s: "survivors example_env [''http://a.example'', ''not a url''] = [''http://a.example'']"
    by (simp add: survivors_def example_valid_urls example_Validate_fst)
  have w: "warnings example_env ''urls.txt'' [''http://a.example'', ''not a url'']
           = [LogWarn ''Skipping url(s) file (urls.txt) line (not a url) - not a valid url: invalid url'']"
    by (simp add: warnings_def example_valid_urls skip_warning_def)
       (simp add: example_env_def example_Validate_def HasPrefix_def)
  have cc: "createFromConfig example_env []
             (example_cfg\<lparr>UrlsFile := ''urls.txt'', URLS := [''http://a.example'']\<rparr>) ParamsCfg_zero
           = createFromConfig example_env [] (example_cfg\<lparr>URLS := [''http://a.example'']\<rparr>) ParamsCfg_zero"
    by (simp add: createFromConfig_eq configOptions_def configLog_def methodOptions_def
          dataOptions_def example_cfg_def)
  from createTemplates_source_priority
            [of "example_cfg\<lparr>UrlsFile := ''urls.txt''\<rparr>" example_env "[]" ParamsCfg_zero]
       hc(1-3) h4 Scanner_run_example_urls
  have "createTemplates example_env [] (example_cfg\<lparr>UrlsFile := ''urls.txt''\<rparr>) ParamsCfg_zero
        = logged ([LogInfo ''Preparing templates for scan'',
                   LogInfo ''Updating config with urls file'']
                  @ warnings example_env (UrlsFile (example_cfg\<lparr>UrlsFile := ''urls.txt''\<rparr>))
                      [''http://a.example'', ''not a url'']
                  @ [LogInfo ''Scan templates from config''])
            (createFromConfig example_env []
               (example_cfg\<lparr>UrlsFile := ''urls.txt'',
                            URLS := URLS (example_cfg\<lparr>UrlsFile := ''urls.txt''\<rparr>)
                                    @ survivors example_env [''http://a.example'', ''not a url'']\<rparr>)
               ParamsCfg_zero)"
    by blast
  then have c: "createTemplates example_env [] (example_cfg\<lparr>UrlsFile := ''urls.txt''\<rparr>) ParamsCfg_zero
     = ([\<lparr>Idx = 0,
          Req = \<lparr>req_method = ''GET'', req_target = ''http://a.example'',
                  req_headers = [], req_body = []\<rparr>,
          Resp = None\<rparr>],
        [LogInfo ''Preparing templates for scan'',
         LogInfo ''Updating config with urls file'',
         LogWarn ''Skipping url(s) file (urls.txt) line (not a url) - not a valid url: invalid url'',
         LogInfo ''Scan templates from config''],
        None)"
    by (simp add: hc(4) s w cc example_template_a)
  have hd: "RequestsFile (example_cfg\<lparr>URLS := [''http://a.example'']\<rparr>) = []"
           "RawRequests (example_cfg\<lparr>URLS := [''http://a.example'']\<rparr>) = []"
           "UrlsFile (example_cfg\<lparr>URLS := [''http://a.example'']\<rparr>) = []"
    by (simp_all add: example_cfg_def)
  from createTemplates_source_priority
            [of "example_cfg\<lparr>URLS := [''http://a.example'']\<rparr>" example_env "[]" ParamsCfg_zero] hd
  have "createTemplates example_env [] (example_cfg\<lparr>URLS := [''http://a.example'']\<rparr>) ParamsCfg_zero
        = logged [LogInfo ''Preparing templates for scan'', LogInfo ''Scan templates from config'']
            (createFromConfig example_env [] (example_cfg\<lparr>URLS := [''http://a.example'']\<rparr>)
               ParamsCfg_zero)"
    by blast
  then have d: "createTemplates example_env [] (example_cfg\<lparr>URLS := [''http://a.example'']\<rparr>) ParamsCfg_zero
     = ([\<lparr>Idx = 0,
          Req = \<lparr>req_method = ''GET'', req_target = ''http://a.example'',
                  req_headers = [], req_body = []\<rparr>,
          Resp = None\<rparr>],
        [LogInfo ''Preparing templates for scan'', LogInfo ''Scan templates from config''],
        None)"
    by (simp add: example_template_a)
  from a b c d show ?thesis by blast
qed

text \<open>A URLs file that cannot be opened: the run aborts, and the inline-config path, which
  would have stored a template for the configured URL, does not run.\<close>

theorem urls_file_missing_inline_path_not_run:
  "createTemplates example_env []
     (example_cfg\<lparr>UrlsFile := ''missing.txt'', URLS := [''http://a.example'']\<rparr>) ParamsCfg_zero
   = ([],
      [LogInfo ''Preparing templates for scan'',
       LogInfo ''Updating config with urls file'',
       LogError ''Error while updating config with urls file: could not process url(s) file(missing.txt): no such file or directory''],
      Some (Errorf_w ErrProcessUrlsFile
              ''could not process url(s) file(missing.txt): no such file or directory''))
   \<and> fst (createFromConfig example_env []
            (example_cfg\<lparr>UrlsFile := ''missing.txt'', URLS := [''http://a.example'']\<rparr>)
            ParamsCfg_zero)
     = [\<lparr>Idx = 0,
         Req = \<lparr>req_method = ''GET'', req_target = ''http://a.example'',
                 req_headers = [], req_body = []\<rparr>,
         Resp = None\<rparr>]"
proof -
  have u: "updateConfigWithURLS example_env
             (example_cfg\<lparr>UrlsFile := ''missing.txt'', URLS := [''http://a.example'']\<rparr>)
           = (example_cfg\<lparr>UrlsFile := ''missing.txt'', URLS := [''http://a.example'']\<rparr>, [],
              Some (Errorf_paren_colon ErrProcessUrlsFile ''missing.txt''
                      (Error_text (Opaque ''no such file or directory''))))"
    using updateConfigWithURLS_PathError
            [of example_env
                "example_cfg\<lparr>UrlsFile := ''missing.txt'', URLS := [''http://a.example'']\<rparr>"
                "''open''" "''missing.txt''" "Opaque ''no such file or directory''"]
    by (simp add: example_env_def example_Open_def)
  have c: "createTemplates example_env []
     (example_cfg\<lparr>UrlsFile := ''missing.txt'', URLS := [''http://a.example'']\<rparr>) ParamsCfg_zero
   = ([],
      [LogInfo ''Preparing templates for scan'',
       LogInfo ''Updating config with urls file'',
       LogError ''Error while updating config with urls file: could not process url(s) file(missing.txt): no such file or directory''],
      Some (Errorf_w ErrProcessUrlsFile
              ''could not process url(s) file(missing.txt): no such file or directory''))"
    using u by (simp add: createTemplates_def example_cfg_def Errorf_paren_colon_def)
  have "createFromConfig example_env []
            (example_cfg\<lparr>UrlsFile := ''missing.txt'', URLS := [''http://a.example'']\<rparr>)
            ParamsCfg_zero
        = createFromConfig example_env [] (example_cfg\<lparr>URLS := [''http://a.example'']\<rparr>) ParamsCfg_zero"
    by (simp add: createFromConfig_eq configOptions_def configLog_def methodOptions_def
          dataOptions_def example_cfg_def)
  with example_template_a c show ?thesis by simp
qed

section \<open>Properties of the parameter file\<close>

lemma configOptions_ParamsFile [simp]:
  "configOptions env (cfg\<lparr>ParamsFile := x\<rparr>) = configOptions env cfg"
  by (simp add: configOptions_def methodOptions_def dataOptions_def)

lemma configLog_ParamsFile [simp]:
  "configLog env (cfg\<lparr>ParamsFile := x\<rparr>) = configLog env cfg"
  by (simp add: configLog_def methodOptions_def dataOptions_def)

lemma createFromConfig_ParamsFile [simp]:
  "createFromConfig env fs (cfg\<lparr>ParamsFile := x\<rparr>) pCfg = createFromConfig env fs cfg pCfg"
  by (simp add: createFromConfig_eq split: sum.splits)

lemma createFromConfig_URLS_ParamsFile [simp]:
  "createFromConfig env fs (cfg\<lparr>ParamsFile := x, URLS := us\<rparr>) pCfg
   = createFromConfig env fs (cfg\<lparr>URLS := us\<rparr>) pCfg"
proof -
  have "cfg\<lparr>ParamsFile := x, URLS := us\<rparr> = (cfg\<lparr>URLS := us\<rparr>)\<lparr>ParamsFile := x\<rparr>"
    by simp
  then show ?thesis by (simp only: createFromConfig_ParamsFile)
qed

lemma updateConfigWithURLS_ParamsFile:
  "updateConfigWithURLS env (cfg\<lparr>ParamsFile := x\<rparr>) =
     (case updateConfigWithURLS env cfg of (c, lg, e) \<Rightarrow> (c\<lparr>ParamsFile := x\<rparr>, lg, e))"
  by (simp add: updateConfigWithURLS_def split: sum.splits option.splits prod.splits)

lemma createTemplates_ParamsFile [simp]:
  "createTemplates env fs (cfg\<lparr>ParamsFile := x\<rparr>) pCfg = createTemplates env fs cfg pCfg"
proof -
  obtain c lg e where u: "updateConfigWithURLS env cfg = (c, lg, e)"
    by (cases "updateConfigWithURLS env cfg")
  then have u': "updateConfigWithURLS env (cfg\<lparr>ParamsFile := x\<rparr>) = (c\<lparr>ParamsFile := x\<rparr>, lg, e)"
    by (simp add: updateConfigWithURLS_ParamsFile)
  show ?thesis
    unfolding createTemplates_def u u'
    by (cases e) simp_all
qed

text \<open>
  C5. When a parameter file is configured and reading it fails, \<^verbatim>\<open>PrepareTemplates\<close>
  leaves the store and returns the error of the run with no parameter file configured,
  which runs with the zero parameter configuration (no parameters, so no splitting). The
  failure shows only in the log: the record of the read and one error record come before
  the records of that run.
\<close>

theorem params_file_failure_not_fatal:
  assumes "ParamsFile cfg \<noteq> []" and "os_ReadFile env (ParamsFile cfg) = Inl err"
  shows "PrepareTemplates env fs cfg =
           logged [LogInfo (''Reading params file from: '' @ ParamsFile cfg),
                   LogError (''Error while reading params file: '' @ Error_text err)]
             (PrepareTemplates env fs (cfg\<lparr>ParamsFile := []\<rparr>))
         \<and> PrepareTemplates env fs (cfg\<lparr>ParamsFile := []\<rparr>) = createTemplates env fs cfg ParamsCfg_zero
         \<and> Params ParamsCfg_zero = []"
  using assms by (simp add: PrepareTemplates_def readParamsFile_def ParamsCfg_zero_def)

theorem params_file_failure_not_fatal_witness:
  "PrepareTemplates example_env []
     (example_cfg\<lparr>ParamsFile := ''missing-params.txt'', URLS := [''http://a.example'']\<rparr>)
   = ([\<lparr>Idx = 0,
        Req = \<lparr>req_method = ''GET'', req_target = ''http://a.example'',
                req_headers = [], req_body = []\<rparr>,
        Resp = None\<rparr>],
      [LogInfo ''Reading params file from: missing-params.txt'',
       LogError ''Error while reading params file: open missing-params.txt: no such file or directory'',
       LogInfo ''Preparing templates for scan'',
       LogInfo ''Scan templates from config''],
      None)"
proof -
  have h1: "ParamsFile (example_cfg\<lparr>ParamsFile := ''missing-params.txt'',
                                    URLS := [''http://a.example'']\<rparr>) \<noteq> []"
    by simp
  have h2: "os_ReadFile example_env
              (ParamsFile (example_cfg\<lparr>ParamsFile := ''missing-params.txt'',
                                       URLS := [''http://a.example'']\<rparr>))
            = Inl (PathError ''open'' ''missing-params.txt'' (Opaque ''no such file or directory''))"
    by (simp add: example_env_def example_ReadFile_def)
  have r: "createTemplates example_env []
             (example_cfg\<lparr>ParamsFile := ''missing-params.txt'', URLS := [''http://a.example'']\<rparr>)
             ParamsCfg_zero
           = logged [LogInfo ''Preparing templates for scan'', LogInfo ''Scan templates from config'']
               (createFromConfig example_env [] (example_cfg\<lparr>URLS := [''http://a.example'']\<rparr>)
                  ParamsCfg_zero)"
    using createTemplates_inline[of "example_cfg\<lparr>URLS := [''http://a.example'']\<rparr>" example_env "[]" ParamsCfg_zero]
          createTemplates_ParamsFile[of example_env "[]" "''missing-params.txt''"
                                        "example_cfg\<lparr>URLS := [''http://a.example'']\<rparr>" ParamsCfg_zero]
    by (simp add: example_cfg_def)
  from params_file_failure_not_fatal[OF h1 h2, of "[]"] show ?thesis
    by (simp add: r example_template_a)
qed

text \<open>When the scanner reads the whole file, the reader returns one entry for each line,
  in file order: the line without its carriage return, trimmed.\<close>

lemma readParamsFile_one_entry_per_line:
  assumes "os_ReadFile env pathToFile = Inr contents" and "\<not> snd (scan_tokens contents)"
  shows "snd (readParamsFile env pathToFile) = Inr (map (\<lambda>l. TrimSpace (dropCR l)) (file_lines contents))"
  using assms by (simp add: readParamsFile_def scan_tokens_file_lines)

text \<open>
  C9. \<^verbatim>\<open>readParamsFile\<close> does not look at \<^verbatim>\<open>scanner.Err()\<close>. On a file of three lines
  whose second line is longer than the scanner's buffer, the scanner stops at that line
  and the reader returns the one entry before it, with no error: the second and the
  third line have no entry.
\<close>

theorem readParamsFile_drops_lines_after_long_line:
  "os_ReadFile example_env ''long-params.txt''
     = Inr (''id'' @ [CHR 0x0A] @ replicate 70000 (CHR ''a'') @ [CHR 0x0A] @ ''name'' @ [CHR 0x0A])
   \<and> readParamsFile example_env ''long-params.txt''
     = ([LogInfo ''Reading params file from: long-params.txt''], Inr [''id''])"
proof -
  have rd: "os_ReadFile example_env ''long-params.txt''
     = Inr (''id'' @ [CHR 0x0A] @ replicate 70000 (CHR ''a'') @ [CHR 0x0A] @ ''name'' @ [CHR 0x0A])"
    by (simp add: example_env_def example_ReadFile_def)
  have "readParamsFile example_env ''long-params.txt''
     = ([LogInfo ''Reading params file from: long-params.txt''], Inr [''id''])"
    unfolding readParamsFile_def rd sum.case scan_tokens_long_params
    by (simp add: TrimSpace_id)
  with rd show ?thesis by blast
qed

end
